theory Spec2Isabelle
  imports
    Main
    "HOL-Library.Sublist"
    "HOL-Library.Char_ord"
    "HOL-Library.List_Lexorder"
    "HOL-Library.FSet"
    "HOL-Library.Multiset"
begin

section \<open>Python strings\<close>

text \<open>
  A Python \<open>str\<close> is modelled as a \<^typ>\<open>string\<close>; each character stands for one code
  point below 256. The order on strings (\<open>sorted\<close>, \<open><\<close>) is the lexicographic order
  on code points, which is the order of \<^typ>\<open>char list\<close> used here.

  \<open>str_find sub s\<close> is \<open>s.find(sub)\<close>: the index of the first occurrence of \<open>sub\<close> in
  \<open>s\<close>, \<open>None\<close> where Python returns \<open>-1\<close>. \<open>str_contains sub s\<close> is \<open>sub in s\<close>.
\<close>

fun str_find :: "string \<Rightarrow> string \<Rightarrow> nat option" where
  "str_find sub [] = (if sub = [] then Some 0 else None)"
| "str_find sub (c # cs) =
     (if prefix sub (c # cs) then Some 0 else map_option Suc (str_find sub cs))"

definition str_contains :: "string \<Rightarrow> string \<Rightarrow> bool" where
  "str_contains sub s = (str_find sub s \<noteq> None)"

text \<open>
  \<open>str_split_once sep s\<close> is \<open>s.split(sep, 1)\<close> for a non-empty separator: the text before
  and after the first occurrence of \<open>sep\<close>, or \<open>[s]\<close> when there is none.
\<close>

definition str_split_once :: "string \<Rightarrow> string \<Rightarrow> string list" where
  "str_split_once sep s =
     (case str_find sep s of
        None \<Rightarrow> [s]
      | Some i \<Rightarrow> [take i s, drop (i + length sep) s])"

text \<open>
  \<open>str_strip\<close> is \<open>str.strip()\<close>: it removes the leading and trailing characters that
  \<open>str.isspace\<close> accepts (among the code points below 256: 9 to 13, 28 to 32, 133, 160).
\<close>

definition is_space :: "char \<Rightarrow> bool" where
  "is_space c = ((of_char c :: nat) \<in> {9, 10, 11, 12, 13, 28, 29, 30, 31, 32, 133, 160})"

definition str_strip :: "string \<Rightarrow> string" where
  "str_strip s = rev (dropWhile is_space (rev (dropWhile is_space s)))"

text \<open>
  \<open>str_lower\<close> and \<open>str_upper\<close> are \<open>str.lower()\<close> and \<open>str.upper()\<close> on the ASCII letters;
  every other character is left as it is. Python also maps accented letters, but no
  such letter is mapped to or from an ASCII letter of the words compared below
  (\<open>true\<close>, \<open>NEED_QUERY\<close>, \<open>inf\<close>, \<open>nan\<close>), so the comparisons made with them agree.
\<close>

definition ascii_upper_letters :: string where
  "ascii_upper_letters = ''ABCDEFGHIJKLMNOPQRSTUVWXYZ''"

definition ascii_lower_letters :: string where
  "ascii_lower_letters = ''abcdefghijklmnopqrstuvwxyz''"

definition char_lower :: "char \<Rightarrow> char" where
  "char_lower c =
     (case map_of (zip ascii_upper_letters ascii_lower_letters) c of
        None \<Rightarrow> c | Some d \<Rightarrow> d)"

definition char_upper :: "char \<Rightarrow> char" where
  "char_upper c =
     (case map_of (zip ascii_lower_letters ascii_upper_letters) c of
        None \<Rightarrow> c | Some d \<Rightarrow> d)"

definition str_lower :: "string \<Rightarrow> string" where
  "str_lower s = map char_lower s"

definition str_upper :: "string \<Rightarrow> string" where
  "str_upper s = map char_upper s"

text \<open>\<open>str_of_nat n\<close> is \<open>str(n)\<close> for a non-negative integer: its decimal digits.\<close>

fun str_of_nat :: "nat \<Rightarrow> string" where
  "str_of_nat n =
     (if n < 10 then [''0123456789'' ! n]
      else str_of_nat (n div 10) @ [''0123456789'' ! (n mod 10)])"

text \<open>\<open>str_join sep xs\<close> is \<open>sep.join(xs)\<close>.\<close>

fun str_join :: "string \<Rightarrow> string list \<Rightarrow> string" where
  "str_join sep [] = []"
| "str_join sep [x] = x"
| "str_join sep (x # y # ys) = x @ sep @ str_join sep (y # ys)"

definition startswith :: "string \<Rightarrow> string \<Rightarrow> bool" where
  "startswith s p = prefix p s"

definition endswith :: "string \<Rightarrow> string \<Rightarrow> bool" where
  "endswith s p = suffix p s"

lemmas str_case_defs = str_lower_def char_lower_def str_upper_def char_upper_def
  ascii_upper_letters_def ascii_lower_letters_def

lemma str_find_Some_iff:
  "str_find sub s = Some i \<longleftrightarrow>
     i \<le> length s \<and> prefix sub (drop i s) \<and> (\<forall>j<i. \<not> prefix sub (drop j s))"
proof (induction s arbitrary: i)
  case Nil
  then show ?case by auto
next
  case (Cons c cs)
  show ?case
  proof (cases "prefix sub (c # cs)")
    case True
    then show ?thesis by (cases i) auto
  next
    case False
    show ?thesis
    proof (cases i)
      case 0
      with False show ?thesis by simp
    next
      case (Suc k)
      have "(\<forall>j<Suc k. \<not> prefix sub (drop j (c # cs))) \<longleftrightarrow>
            (\<forall>j<k. \<not> prefix sub (drop j cs))"
        using False by (auto simp: less_Suc_eq_0_disj)
      with False Suc Cons.IH [of k] show ?thesis by auto
    qed
  qed
qed

lemma str_find_None_iff: "str_find sub s = None \<longleftrightarrow> \<not> sublist sub s"
proof (induction s)
  case Nil
  then show ?case by auto
next
  case (Cons c cs)
  then show ?case by (auto simp: sublist_Cons_right)
qed

lemma str_contains_iff: "str_contains sub s \<longleftrightarrow> sublist sub s"
  by (simp add: str_contains_def str_find_None_iff)

section \<open>Conversation memory: namespaced thread keys (src/memory.py)\<close>

definition make_thread_id :: "string \<Rightarrow> string \<Rightarrow> string" where
  "make_thread_id user_id thread_id = user_id @ ''__'' @ thread_id"

definition parse_thread_id :: "string \<Rightarrow> string \<times> string" where
  "parse_thread_id namespaced_id =
     (let parts = str_split_once ''__'' namespaced_id in
      if length parts = 2 then (parts ! 0, parts ! 1)
      else (''unknown'', namespaced_id))"

lemma str_find_make:
  "str_find ''__'' (u @ ''__'' @ t) = Some (length u) \<longleftrightarrow>
     \<not> sublist ''__'' u \<and> \<not> suffix ''_'' u"
proof (induction u)
  case Nil
  then show ?case by simp
next
  case (Cons c cs)
  show ?case
  proof (cases cs)
    case Nil
    then show ?thesis by (auto simp: suffix_Cons sublist_Cons_right)
  next
    case (Cons d ds)
    have "suffix ''_'' (c # d # ds) = suffix ''_'' (d # ds)"
      by (auto simp: suffix_Cons)
    with Cons Cons.IH show ?thesis
      by (auto simp: sublist_Cons_right)
  qed
qed

lemma str_find_make_bound:
  "\<exists>i\<le>length u. str_find ''__'' (u @ ''__'' @ t) = Some i"
proof (induction u)
  case Nil
  then show ?case by simp
next
  case (Cons c cs)
  then show ?case by auto
qed

lemma parse_make_iff:
  "parse_thread_id (make_thread_id u t) = (u, t) \<longleftrightarrow>
     \<not> sublist ''__'' u \<and> \<not> suffix ''_'' u"
proof -
  obtain i where i: "i \<le> length u" "str_find ''__'' (u @ ''__'' @ t) = Some i"
    using str_find_make_bound by blast
  have "parse_thread_id (make_thread_id u t) = (take i u, drop (i + 2) (u @ ''__'' @ t))"
    using i by (simp add: parse_thread_id_def make_thread_id_def str_split_once_def)
  moreover have "take i u = u \<longleftrightarrow> i = length u"
    using i(1) by (metis length_take min.absorb2 take_all order_refl)
  moreover have "i = length u \<Longrightarrow> drop (i + 2) (u @ ''__'' @ t) = t"
    by simp
  ultimately have "parse_thread_id (make_thread_id u t) = (u, t) \<longleftrightarrow> i = length u"
    by auto
  also have "\<dots> \<longleftrightarrow> str_find ''__'' (u @ ''__'' @ t) = Some (length u)"
    using i(2) by auto
  finally show ?thesis by (simp only: str_find_make)
qed

text \<open>
  Claim C10, as stated, fails: the user identifier \<open>a_\<close> does not contain \<open>__\<close>, yet the
  key \<open>a___t\<close> built from it and the thread \<open>t\<close> is split at its first \<open>__\<close>, which
  starts inside the user identifier, and parses to the user \<open>a\<close> and the thread \<open>_t\<close>.
\<close>

theorem thread_id_roundtrip_counterexample:
  "\<not> str_contains ''__'' ''a_'' \<and>
   parse_thread_id (make_thread_id ''a_'' ''t'') = (''a'', ''_t'') \<and>
   parse_thread_id (make_thread_id ''a_'' ''t'') \<noteq> (''a_'', ''t'')"
  by (simp add: str_contains_def parse_thread_id_def make_thread_id_def str_split_once_def)

text \<open>
  Claim C10, amended: \<open>parse_thread_id (make_thread_id user_id thread_id)\<close> returns exactly
  \<open>(user_id, thread_id)\<close> for every thread identifier if and only if the user identifier
  neither contains \<open>__\<close> nor ends with an underscore. Two distinct (user, thread) pairs
  can yield the same key: user \<open>a__b\<close> with thread \<open>t\<close> and user \<open>a\<close> with thread \<open>b__t\<close>
  both give \<open>a__b__t\<close>, which parses to the second pair, so keys do not isolate such
  users.
\<close>

theorem thread_id_roundtrip:
  "(parse_thread_id (make_thread_id user_id thread_id) = (user_id, thread_id) \<longleftrightarrow>
      \<not> str_contains ''__'' user_id \<and> \<not> suffix ''_'' user_id) \<and>
   make_thread_id ''a__b'' ''t'' = ''a__b__t'' \<and>
   make_thread_id ''a'' ''b__t'' = ''a__b__t'' \<and>
   parse_thread_id ''a__b__t'' = (''a'', ''b__t'')"
proof -
  have "parse_thread_id ''a__b__t'' = (''a'', ''b__t'')"
    by (simp add: parse_thread_id_def str_split_once_def)
  then show ?thesis
    by (simp add: parse_make_iff str_contains_iff) (simp add: make_thread_id_def)
qed

theorem thread_id_roundtrip_witness:
  "\<not> str_contains ''__'' ''alice'' \<and> \<not> suffix ''_'' ''alice'' \<and>
   parse_thread_id (make_thread_id ''alice'' ''t1'') = (''alice'', ''t1'')"
proof -
  have h: "\<not> str_contains ''__'' ''alice'' \<and> \<not> suffix ''_'' ''alice''"
    by (simp add: str_contains_def suffix_Cons)
  with thread_id_roundtrip [of "''alice''" "''t1''"] show ?thesis
    by blast
qed

section \<open>Configuration (config.py)\<close>

text \<open>
  \<open>float(s)\<close> on a string: the text is stripped, an optional sign is read, and what
  remains must be \<open>inf\<close>, \<open>infinity\<close> or \<open>nan\<close> in any letter case, or a decimal number
  \<open>[digitpart] . digitpart | digitpart [.]\<close> with an optional exponent, where a digitpart
  is a run of digits in which single underscores may separate digits. Any other text
  raises \<open>ValueError\<close>. The value returned is kept as \<open>FloatOf\<close> the stripped text: the
  double that the text denotes (rounding is not modelled).

  The stripping of \<open>float\<close> is not that of \<open>str.strip()\<close>. A character below 127 is removed
  only when C's \<open>isspace\<close> accepts it (code points 9 to 13 and 32); a character from 127 on
  is first turned into a space when it is Unicode white space (133 and 160 among the code
  points below 256). So the separators 28 to 31, which \<open>str.strip()\<close> removes, stay in the
  text and make the conversion fail.
\<close>

definition is_float_space :: "char \<Rightarrow> bool" where
  "is_float_space c = ((of_char c :: nat) \<in> {9, 10, 11, 12, 13, 32, 133, 160})"

definition float_strip :: "string \<Rightarrow> string" where
  "float_strip s = rev (dropWhile is_float_space (rev (dropWhile is_float_space s)))"

definition is_digit :: "char \<Rightarrow> bool" where
  "is_digit c = (c \<in> set ''0123456789'')"

fun skip_digits :: "string \<Rightarrow> string" where
  "skip_digits [] = []"
| "skip_digits [c] = (if is_digit c then [] else [c])"
| "skip_digits (c # d # cs) =
     (if is_digit c then skip_digits (d # cs)
      else if c = CHR ''_'' \<and> is_digit d then skip_digits (d # cs)
      else c # d # cs)"

definition digitpart :: "string \<Rightarrow> string option" where
  "digitpart s =
     (case s of [] \<Rightarrow> None | c # cs \<Rightarrow> if is_digit c then Some (skip_digits cs) else None)"

definition skip_sign :: "string \<Rightarrow> string" where
  "skip_sign s =
     (case s of [] \<Rightarrow> [] | c # cs \<Rightarrow> if c = CHR ''+'' \<or> c = CHR ''-'' then cs else s)"

definition float_number :: "string \<Rightarrow> string option" where
  "float_number s =
     (case s of
        [] \<Rightarrow> None
      | c # cs \<Rightarrow>
          if c = CHR ''.'' then digitpart cs
          else (case digitpart s of
                  None \<Rightarrow> None
                | Some r \<Rightarrow>
                    (case r of
                       [] \<Rightarrow> Some []
                     | d # ds \<Rightarrow>
                         if d = CHR ''.''
                         then (case digitpart ds of None \<Rightarrow> Some ds | Some r' \<Rightarrow> Some r')
                         else Some r)))"

definition float_exponent :: "string \<Rightarrow> bool" where
  "float_exponent r =
     (case r of
        [] \<Rightarrow> True
      | c # cs \<Rightarrow> (c = CHR ''e'' \<or> c = CHR ''E'') \<and> digitpart (skip_sign cs) = Some [])"

definition is_float_literal :: "string \<Rightarrow> bool" where
  "is_float_literal s =
     (let t = skip_sign (float_strip s) in
      str_lower t \<in> {''inf'', ''infinity'', ''nan''} \<or>
      (case float_number t of None \<Rightarrow> False | Some r \<Rightarrow> float_exponent r))"

datatype py_float = FloatOf string

datatype startup_error = InvalidFloat string

definition float_of_str :: "string \<Rightarrow> startup_error + py_float" where
  "float_of_str s =
     (if is_float_literal s then Inr (FloatOf (float_strip s)) else Inl (InvalidFloat s))"

text \<open>
  The process environment (after \<open>load_dotenv\<close>) is a map from variable names to values;
  \<open>getenv env key dflt\<close> is \<open>os.getenv(key, dflt)\<close>.
\<close>

type_synonym environ = "string \<rightharpoonup> string"

definition getenv :: "environ \<Rightarrow> string \<Rightarrow> string \<Rightarrow> string" where
  "getenv env key dflt = (case env key of None \<Rightarrow> dflt | Some v \<Rightarrow> v)"

record Settings =
  ollama_host :: string
  supervisor_model :: string
  coder_model :: string
  agent_temperature :: py_float
  data_dir :: string
  duckdb_path :: string
  schema_path :: string
  memory_db_path :: string
  use_postgres_memory :: bool

text \<open>
  The field defaults of the dataclass are computed from the environment when the class
  body runs, and \<open>settings = Settings()\<close> takes them all. The only step that can raise is
  the \<open>float\<close> conversion of the temperature.
\<close>

definition Settings_init :: "environ \<Rightarrow> startup_error + Settings" where
  "Settings_init env =
     (case float_of_str (getenv env ''AGENT_TEMPERATURE'' ''0.1'') of
        Inl e \<Rightarrow> Inl e
      | Inr t \<Rightarrow>
          Inr \<lparr> ollama_host = getenv env ''OLLAMA_HOST'' ''http://localhost:11434'',
                supervisor_model = getenv env ''OLLAMA_SUPERVISOR_MODEL'' ''ministral3:8b'',
                coder_model = getenv env ''OLLAMA_CODER_MODEL'' ''gpt-oss:120b-cloud'',
                agent_temperature = t,
                data_dir = getenv env ''DATA_DIR'' ''./data'',
                duckdb_path = getenv env ''DUCKDB_PATH'' ''./duckdb.db'',
                schema_path = getenv env ''SCHEMA_PATH'' ''./schema.json'',
                memory_db_path = getenv env ''MEMORY_DB_PATH'' ''./memory.db'',
                use_postgres_memory =
                  (str_lower (getenv env ''USE_POSTGRES_MEMORY'' ''false'') = ''true'') \<rparr>)"

text \<open>
  The documented defaults, and what the specification calls a malformed boolean: a
  value that is neither \<open>true\<close> nor \<open>false\<close> in any letter case.
\<close>

definition default_settings :: Settings where
  "default_settings =
     \<lparr> ollama_host = ''http://localhost:11434'',
       supervisor_model = ''ministral3:8b'',
       coder_model = ''gpt-oss:120b-cloud'',
       agent_temperature = FloatOf ''0.1'',
       data_dir = ''./data'',
       duckdb_path = ''./duckdb.db'',
       schema_path = ''./schema.json'',
       memory_db_path = ''./memory.db'',
       use_postgres_memory = False \<rparr>"

definition malformed_flag :: "string \<Rightarrow> bool" where
  "malformed_flag v = (str_lower v \<notin> {''true'', ''false''})"

lemmas float_defs = is_float_literal_def float_exponent_def float_number_def skip_sign_def
  digitpart_def is_digit_def float_strip_def is_float_space_def str_case_defs

lemma default_temperature_ok: "float_of_str ''0.1'' = Inr (FloatOf ''0.1'')"
  by (simp add: float_of_str_def float_defs)

lemma float_literal_examples:
  "is_float_literal '' 1_000.5e-3 ''" "is_float_literal ''-.5''" "is_float_literal ''5.''"
  "is_float_literal ''+Infinity''" "\<not> is_float_literal []" "\<not> is_float_literal ''1_.5''"
  "\<not> is_float_literal ''0,1''" "\<not> is_float_literal ''1e''" "\<not> is_float_literal ''abc''"
  by (simp_all add: float_defs)

lemma float_strip_examples:
  "is_float_literal ([CHR 0x09] @ ''0.5'' @ [CHR 0x0A])"
  "is_float_literal ([CHR 0x85] @ ''0.5'' @ [CHR 0xA0])"
  "\<not> is_float_literal ([CHR 0x1C] @ ''0.5'' @ [CHR 0x1F])"
  "str_strip ([CHR 0x1C] @ ''0.5'' @ [CHR 0x1F]) = ''0.5''"
  by (simp_all add: float_defs str_strip_def is_space_def)

text \<open>
  Claim C9, as stated, fails for the memory-backend flag: with \<open>USE_POSTGRES_MEMORY=yes\<close>,
  a malformed boolean, construction succeeds and yields exactly the default settings
  (the flag is \<open>False\<close>).
\<close>

theorem settings_flag_counterexample:
  "malformed_flag ''yes'' \<and>
   Settings_init [''USE_POSTGRES_MEMORY'' \<mapsto> ''yes''] = Inr default_settings"
  by (simp add: malformed_flag_def Settings_init_def getenv_def default_temperature_ok
      default_settings_def str_case_defs)

text \<open>
  Claim C9, amended: constructing the settings fails with an invalid-format error
  exactly when the temperature text does not parse as a float. The memory-backend flag
  never makes construction fail: it is true exactly when its text is \<open>true\<close> in any letter
  case, so a malformed boolean silently gives \<open>False\<close>, the default. When construction
  succeeds, every unset variable has its documented default.
\<close>

theorem settings_init_cases:
  "(\<not> is_float_literal (getenv env ''AGENT_TEMPERATURE'' ''0.1'') \<longrightarrow>
      Settings_init env = Inl (InvalidFloat (getenv env ''AGENT_TEMPERATURE'' ''0.1''))) \<and>
   (is_float_literal (getenv env ''AGENT_TEMPERATURE'' ''0.1'') \<longrightarrow>
      (\<exists>s. Settings_init env = Inr s \<and>
           use_postgres_memory s =
             (str_lower (getenv env ''USE_POSTGRES_MEMORY'' ''false'') = ''true'') \<and>
           (malformed_flag (getenv env ''USE_POSTGRES_MEMORY'' ''false'') \<longrightarrow>
              \<not> use_postgres_memory s) \<and>
           (env ''OLLAMA_HOST'' = None \<longrightarrow> ollama_host s = ollama_host default_settings) \<and>
           (env ''OLLAMA_SUPERVISOR_MODEL'' = None \<longrightarrow>
              supervisor_model s = supervisor_model default_settings) \<and>
           (env ''OLLAMA_CODER_MODEL'' = None \<longrightarrow> coder_model s = coder_model default_settings) \<and>
           (env ''AGENT_TEMPERATURE'' = None \<longrightarrow>
              agent_temperature s = agent_temperature default_settings) \<and>
           (env ''DATA_DIR'' = None \<longrightarrow> data_dir s = data_dir default_settings) \<and>
           (env ''DUCKDB_PATH'' = None \<longrightarrow> duckdb_path s = duckdb_path default_settings) \<and>
           (env ''SCHEMA_PATH'' = None \<longrightarrow> schema_path s = schema_path default_settings) \<and>
           (env ''MEMORY_DB_PATH'' = None \<longrightarrow>
              memory_db_path s = memory_db_path default_settings) \<and>
           (env ''USE_POSTGRES_MEMORY'' = None \<longrightarrow>
              use_postgres_memory s = use_postgres_memory default_settings)))"
proof (cases "is_float_literal (getenv env ''AGENT_TEMPERATURE'' ''0.1'')")
  case False
  then show ?thesis by (simp add: Settings_init_def float_of_str_def)
next
  case True
  have lit: "float_strip ''0.1'' = ''0.1''" by (simp add: float_strip_def is_float_space_def)
  have low: "str_lower ''false'' \<noteq> ''true''" by (simp add: str_case_defs)
  from True show ?thesis
    by (auto simp: Settings_init_def float_of_str_def getenv_def default_settings_def
        malformed_flag_def lit low)
qed

theorem settings_init_cases_witness:
  "Settings_init Map.empty = Inr default_settings \<and>
   Settings_init [''AGENT_TEMPERATURE'' \<mapsto> ''warm''] = Inl (InvalidFloat ''warm'') \<and>
   Settings_init [''AGENT_TEMPERATURE'' \<mapsto> [CHR 0x1C] @ ''0.5'' @ [CHR 0x1F]]
     = Inl (InvalidFloat ([CHR 0x1C] @ ''0.5'' @ [CHR 0x1F])) \<and>
   malformed_flag ''Yes'' \<and>
   (\<exists>s. Settings_init [''USE_POSTGRES_MEMORY'' \<mapsto> ''Yes''] = Inr s \<and> \<not> use_postgres_memory s)"
proof -
  have a: "is_float_literal (getenv Map.empty ''AGENT_TEMPERATURE'' ''0.1'')"
    by (simp add: getenv_def float_defs)
  have b: "\<not> is_float_literal
             (getenv [''AGENT_TEMPERATURE'' \<mapsto> ''warm''] ''AGENT_TEMPERATURE'' ''0.1'')"
    by (simp add: getenv_def float_defs)
  from settings_init_cases [of Map.empty] a
  obtain s where s: "Settings_init Map.empty = Inr s"
    "ollama_host s = ollama_host default_settings"
    "supervisor_model s = supervisor_model default_settings"
    "coder_model s = coder_model default_settings"
    "agent_temperature s = agent_temperature default_settings"
    "data_dir s = data_dir default_settings"
    "duckdb_path s = duckdb_path default_settings"
    "schema_path s = schema_path default_settings"
    "memory_db_path s = memory_db_path default_settings"
    "use_postgres_memory s = use_postgres_memory default_settings"
    by auto
  then have "s = default_settings" by simp
  with s(1) have first: "Settings_init Map.empty = Inr default_settings" by simp
  from settings_init_cases [of "[''AGENT_TEMPERATURE'' \<mapsto> ''warm'']"] b
  have second: "Settings_init [''AGENT_TEMPERATURE'' \<mapsto> ''warm''] = Inl (InvalidFloat ''warm'')"
    by (simp add: getenv_def)
  have c: "\<not> is_float_literal
             (getenv [''AGENT_TEMPERATURE'' \<mapsto> [CHR 0x1C] @ ''0.5'' @ [CHR 0x1F]]
                ''AGENT_TEMPERATURE'' ''0.1'')"
    by (simp add: getenv_def float_defs)
  from settings_init_cases [of "[''AGENT_TEMPERATURE'' \<mapsto> [CHR 0x1C] @ ''0.5'' @ [CHR 0x1F]]"] c
  have third: "Settings_init [''AGENT_TEMPERATURE'' \<mapsto> [CHR 0x1C] @ ''0.5'' @ [CHR 0x1F]]
     = Inl (InvalidFloat ([CHR 0x1C] @ ''0.5'' @ [CHR 0x1F]))"
    by (simp add: getenv_def)
  have d: "is_float_literal
             (getenv [''USE_POSTGRES_MEMORY'' \<mapsto> ''Yes''] ''AGENT_TEMPERATURE'' ''0.1'')"
    by (simp add: getenv_def float_defs)
  have m: "malformed_flag ''Yes''"
    by (simp add: malformed_flag_def str_case_defs)
  then have m': "malformed_flag
             (getenv [''USE_POSTGRES_MEMORY'' \<mapsto> ''Yes''] ''USE_POSTGRES_MEMORY'' ''false'')"
    by (simp add: getenv_def)
  from settings_init_cases [of "[''USE_POSTGRES_MEMORY'' \<mapsto> ''Yes'']"] d m'
  have fourth: "\<exists>s. Settings_init [''USE_POSTGRES_MEMORY'' \<mapsto> ''Yes''] = Inr s \<and>
                   \<not> use_postgres_memory s"
    by blast
  from first second third m fourth show ?thesis by (intro conjI)
qed

section \<open>Agents (src/agents.py)\<close>

text \<open>
  An exception is its class name and its text (\<open>str(e)\<close>). A chat model is called with
  a list of messages and returns the content of its reply, or raises. The supervisor
  agent holds its model and its system prompt.
\<close>

datatype exn = Exn (exn_type: string) (exn_text: string)

datatype message = SystemMessage string | HumanMessage string | AIMessage string

type_synonym chat_model = "message list \<Rightarrow> exn + string"

record SupervisorAgent =
  llm :: chat_model
  system_prompt :: string

subsection \<open>Answer synthesis\<close>

text \<open>
  \<open>py_str_list repr xs\<close> is \<open>str(xs)\<close> for a list: the \<open>repr\<close> of each element, separated
  by a comma and a space, in square brackets. Result rows are values of any type \<open>'r\<close>
  with their \<open>repr\<close>. \<open>results_str\<close> is the text that \<open>synthesize_answer\<close> puts under
  \<open>Query results:\<close> in its prompt.
\<close>

definition py_str_list :: "('a \<Rightarrow> string) \<Rightarrow> 'a list \<Rightarrow> string" where
  "py_str_list repr xs = ''['' @ str_join '', '' (map repr xs) @ '']''"

definition results_str :: "('r \<Rightarrow> string) \<Rightarrow> 'r list \<Rightarrow> string" where
  "results_str repr results =
     (let s = py_str_list repr (take 50 results) in
      if length results > 50
      then s @ ''\<newline>... (showing first 50 of '' @ str_of_nat (length results) @ '' rows)''
      else s)"

definition synthesize_prompt :: "string \<Rightarrow> string \<Rightarrow> string \<Rightarrow> string \<Rightarrow> string" where
  "synthesize_prompt schema_info question query rs =
     ''Schema information:\<newline>'' @ schema_info @
     ''\<newline>\<newline>User question: '' @ question @
     ''\<newline>\<newline>SQL query executed:\<newline>'' @ query @
     ''\<newline>\<newline>Query results:\<newline>'' @ rs @
     ''\<newline>\<newline>Based on these results, provide a clear, thorough, and precise answer to the user's question. \<newline>Include specific numbers, trends, and insights from the data. If the results are empty, explain why.''"

definition synthesize_answer ::
  "SupervisorAgent \<Rightarrow> ('r \<Rightarrow> string) \<Rightarrow> string \<Rightarrow> string \<Rightarrow> 'r list \<Rightarrow> string \<Rightarrow> exn + string" where
  "synthesize_answer agent repr question query results schema_info =
     llm agent
       [SystemMessage (system_prompt agent),
        HumanMessage (synthesize_prompt schema_info question query (results_str repr results))]"

text \<open>A sample row type: rows with the single integer column \<open>n\<close>.\<close>

definition repr_n_row :: "nat \<Rightarrow> string" where
  "repr_n_row n = ''{'n': '' @ str_of_nat n @ ''}''"

subsection \<open>JSON values and a reference parser\<close>

text \<open>
  The values \<open>json.loads\<close> returns: \<open>None\<close>, booleans, numbers (kept as their literal),
  strings, lists and dictionaries (association lists in insertion order; \<open>dict_set\<close> is
  \<open>d[k] = v\<close>).
\<close>

datatype json =
    JNull | JBool bool | JNum string | JStr string
  | JArr "json list" | JObj "(string \<times> json) list"

fun dict_set :: "'k \<Rightarrow> 'v \<Rightarrow> ('k \<times> 'v) list \<Rightarrow> ('k \<times> 'v) list" where
  "dict_set k v [] = [(k, v)]"
| "dict_set k v ((k', v') # kvs) =
     (if k' = k then (k, v) # kvs else (k', v') # dict_set k v kvs)"

text \<open>
  The operations below take the JSON parser as a parameter \<open>loads\<close>, so that what is
  proved of them holds for every parser. \<open>json_loads\<close> is a reference parser for the
  grammar \<open>json.loads\<close> accepts, used to run them on concrete replies: white space is
  space, tab, line feed and carriage return; a string may not contain a raw character
  below 32 and may use the two-character escapes (\<open>\u\<close> escapes are not covered); numbers
  are \<open>-?(0|[1-9][0-9]*)(.[0-9]+)?([eE][+-]?[0-9]+)?\<close>; the constants are \<open>null\<close>, \<open>true\<close>,
  \<open>false\<close>, \<open>NaN\<close>, \<open>Infinity\<close> and \<open>-Infinity\<close>; a repeated key keeps its first place and its
  last value. The recursion depth is bounded by the length of the text. Error texts
  are abbreviated.
\<close>

definition is_json_ws :: "char \<Rightarrow> bool" where
  "is_json_ws c = ((of_char c :: nat) \<in> {32, 9, 10, 13})"

definition skip_ws :: "string \<Rightarrow> string" where
  "skip_ws s = dropWhile is_json_ws s"

definition json_escapes :: "(char \<times> char) list" where
  "json_escapes =
     [(CHR 0x22, CHR 0x22), (CHR 0x5C, CHR 0x5C), (CHR ''/'', CHR ''/''),
      (CHR ''b'', CHR 0x08), (CHR ''f'', CHR 0x0C), (CHR ''n'', CHR 0x0A),
      (CHR ''r'', CHR 0x0D), (CHR ''t'', CHR 0x09)]"

fun scan_string :: "string \<Rightarrow> string \<Rightarrow> (string \<times> string) option" where
  "scan_string acc [] = None"
| "scan_string acc [c] = (if c = CHR 0x22 then Some (rev acc, []) else None)"
| "scan_string acc (c # d # cs) =
     (if c = CHR 0x22 then Some (rev acc, d # cs)
      else if c = CHR 0x5C then
        (case map_of json_escapes d of
           None \<Rightarrow> None
         | Some x \<Rightarrow> scan_string (x # acc) cs)
      else if (of_char c :: nat) < 32 then None
      else scan_string (c # acc) (d # cs))"

definition scan_fraction :: "string \<Rightarrow> string \<times> string" where
  "scan_fraction s =
     (case s of
        [] \<Rightarrow> ([], s)
      | c # r \<Rightarrow>
          if c = CHR ''.'' \<and> takeWhile is_digit r \<noteq> []
          then (c # takeWhile is_digit r, dropWhile is_digit r)
          else ([], s))"

definition scan_exponent :: "string \<Rightarrow> string \<times> string" where
  "scan_exponent s =
     (case s of
        [] \<Rightarrow> ([], s)
      | c # r \<Rightarrow>
          if c = CHR ''e'' \<or> c = CHR ''E'' then
            (let sg = (case r of [] \<Rightarrow> [] | x # _ \<Rightarrow> if x = CHR ''+'' \<or> x = CHR ''-'' then [x] else []);
                 r' = drop (length sg) r
             in if takeWhile is_digit r' \<noteq> []
                then (c # sg @ takeWhile is_digit r', dropWhile is_digit r')
                else ([], s))
          else ([], s))"

definition scan_number :: "string \<Rightarrow> (string \<times> string) option" where
  "scan_number s =
     (let sg = (if startswith s ''-'' then ''-'' else []);
          s1 = drop (length sg) s;
          ds = takeWhile is_digit s1
      in if ds = [] then None
         else
           (let ip = (if hd ds = CHR ''0'' then ''0'' else ds);
                (fr, s3) = scan_fraction (drop (length ip) s1);
                (ex, s4) = scan_exponent s3
            in Some (sg @ ip @ fr @ ex, s4)))"

definition json_constants :: "(string \<times> json) list" where
  "json_constants =
     [(''null'', JNull), (''true'', JBool True), (''false'', JBool False),
      (''NaN'', JNum ''NaN''), (''Infinity'', JNum ''Infinity''),
      (''-Infinity'', JNum ''-Infinity'')]"

definition scan_constant :: "string \<Rightarrow> (json \<times> string) option" where
  "scan_constant s =
     (case filter (\<lambda>(w, v). startswith s w) json_constants of
        [] \<Rightarrow> None
      | (w, v) # _ \<Rightarrow> Some (v, drop (length w) s))"

fun parse_value :: "nat \<Rightarrow> string \<Rightarrow> (json \<times> string) option"
  and parse_elements :: "nat \<Rightarrow> json list \<Rightarrow> string \<Rightarrow> (json \<times> string) option"
  and parse_members :: "nat \<Rightarrow> (string \<times> json) list \<Rightarrow> string \<Rightarrow> (json \<times> string) option"
where
  "parse_value 0 s = None"
| "parse_value (Suc n) s =
     (case s of
        [] \<Rightarrow> None
      | c # cs \<Rightarrow>
          if c = CHR 0x22 then map_option (\<lambda>(x, r). (JStr x, r)) (scan_string [] cs)
          else if c = CHR ''['' then
            (case skip_ws cs of
               [] \<Rightarrow> None
             | d # ds \<Rightarrow> if d = CHR '']'' then Some (JArr [], ds) else parse_elements n [] (d # ds))
          else if c = CHR ''{'' then
            (case skip_ws cs of
               [] \<Rightarrow> None
             | d # ds \<Rightarrow> if d = CHR ''}'' then Some (JObj [], ds) else parse_members n [] (d # ds))
          else (case scan_constant s of
                  Some r \<Rightarrow> Some r
                | None \<Rightarrow> map_option (\<lambda>(x, r). (JNum x, r)) (scan_number s)))"
| "parse_elements 0 acc s = None"
| "parse_elements (Suc n) acc s =
     (case parse_value n s of
        None \<Rightarrow> None
      | Some (v, r) \<Rightarrow>
          (case skip_ws r of
             [] \<Rightarrow> None
           | c # cs \<Rightarrow>
               if c = CHR '','' then parse_elements n (v # acc) (skip_ws cs)
               else if c = CHR '']'' then Some (JArr (rev (v # acc)), cs)
               else None))"
| "parse_members 0 acc s = None"
| "parse_members (Suc n) acc s =
     (case s of
        [] \<Rightarrow> None
      | q # s1 \<Rightarrow>
          if q \<noteq> CHR 0x22 then None
          else
            (case scan_string [] s1 of
               None \<Rightarrow> None
             | Some (k, r) \<Rightarrow>
                 (case skip_ws r of
                    [] \<Rightarrow> None
                  | d # ds \<Rightarrow>
                      if d \<noteq> CHR '':'' then None
                      else
                        (case parse_value n (skip_ws ds) of
                           None \<Rightarrow> None
                         | Some (v, r') \<Rightarrow>
                             (case skip_ws r' of
                                [] \<Rightarrow> None
                              | e # es \<Rightarrow>
                                  if e = CHR '','' then parse_members n (dict_set k v acc) (skip_ws es)
                                  else if e = CHR ''}'' then Some (JObj (dict_set k v acc), es)
                                  else None)))))"

definition json_loads :: "string \<Rightarrow> exn + json" where
  "json_loads s =
     (case parse_value (Suc (length s)) (skip_ws s) of
        None \<Rightarrow> Inl (Exn ''JSONDecodeError'' ''Expecting value'')
      | Some (v, r) \<Rightarrow>
          if skip_ws r = [] then Inr v else Inl (Exn ''JSONDecodeError'' ''Extra data''))"

subsection \<open>Semantic verification and complexity detection\<close>

text \<open>
  Both operations strip the reply, remove a leading \<open>```json\<close> or \<open>```\<close> and a trailing
  \<open>```\<close>, and parse what is left; \<open>detect_complexity\<close> first replaces every control
  character (code points 0 to 31 and 127 to 159) by a space. Every exception raised
  inside the \<open>try\<close> block, by the model, by the parser or by the item assignment, is
  caught and turned into the fallback value, so both operations return a value.
\<close>

definition strip_code_fences :: "string \<Rightarrow> string" where
  "strip_code_fences content0 =
     (let content1 = (if startswith content0 ''```json'' then drop 7 content0 else content0);
          content2 = (if startswith content1 ''```'' then drop 3 content1 else content1)
      in if endswith content2 ''```'' then take (length content2 - 3) content2 else content2)"

definition is_control_char :: "char \<Rightarrow> bool" where
  "is_control_char c = (let n = (of_char c :: nat) in n \<le> 31 \<or> (127 \<le> n \<and> n \<le> 159))"

definition sanitize_control :: "string \<Rightarrow> string" where
  "sanitize_control s = map (\<lambda>c. if is_control_char c then CHR '' '' else c) s"

definition verify_system_prompt :: string where
  "verify_system_prompt =
     ''You are a strict SQL Code Reviewer. Your job is to catch column hallucinations and correct them.''"

definition verify_prompt :: "string \<Rightarrow> string \<Rightarrow> string" where
  \<open>verify_prompt schema_info query =
     ''Schema information:\<newline>'' @ schema_info @
     ''\<newline>\<newline>Generated SQL Query:\<newline>'' @ query @
     ''\<newline>\<newline>Verify this query. Check specifically if:\<newline>'' @
     ''1. All columns used in the query actually exist in their respective tables.\<newline>'' @
     ''2. Join keys exist in BOTH tables participating in the join.\<newline>'' @
     ''3. There are no "hallucinated" columns (e.g. using request_id on a table that doesn't have it).\<newline>'' @
     ''\<newline>Return a JSON object with this exact format:\<newline>'' @
     ''{\<newline>'' @
     ''    "valid": boolean,\<newline>'' @
     ''    "feedback": "string explaining the error if invalid, or 'Looks good' if valid"\<newline>'' @
     ''}\<newline>''\<close>

definition verify_payload :: "string \<Rightarrow> string" where
  "verify_payload reply = str_strip (strip_code_fences (str_strip reply))"

definition verify_fallback :: "exn \<Rightarrow> json" where
  "verify_fallback e =
     JObj [(''valid'', JBool True),
           (''feedback'', JStr (''Verification failed: '' @ exn_text e))]"

definition verify_query ::
  "(string \<Rightarrow> exn + json) \<Rightarrow> SupervisorAgent \<Rightarrow> string \<Rightarrow> string \<Rightarrow> json" where
  "verify_query loads agent query schema_info =
     (case llm agent [SystemMessage verify_system_prompt,
                      HumanMessage (verify_prompt schema_info query)] of
        Inl e \<Rightarrow> verify_fallback e
      | Inr reply \<Rightarrow>
          (case loads (verify_payload reply) of
             Inl e \<Rightarrow> verify_fallback e
           | Inr v \<Rightarrow> v))"

definition complexity_prompt :: "string \<Rightarrow> string \<Rightarrow> string" where
  \<open>complexity_prompt schema_info question =
     ''Schema information:\<newline>'' @ schema_info @
     ''\<newline>\<newline>User question: '' @ question @
     ''\<newline>\<newline>Analyze this question to determine if it should be decomposed into simpler sub-questions.\<newline>'' @
     ''\<newline>A question IS COMPLEX if:\<newline>'' @
     ''- It asks for multiple distinct metrics (e.g., "volume AND growth AND total value")\<newline>'' @
     ''- Each metric could be answered by a simple SQL query with few columns and simple joins\<newline>'' @
     ''- Answering everything in one query would require medium to complex UNION or multiple aggregations\<newline>'' @
     ''\<newline>A question is SIMPLE if:\<newline>'' @
     ''- It asks for one metric or closely related metrics that naturally go together\<newline>'' @
     ''- It can be answered with a single straightforward SQL query\<newline>'' @
     ''\<newline>If COMPLEX, break it down into sub-questions where each:\<newline>'' @
     ''- Asks for ONE specific metric or closely related metrics\<newline>'' @
     ''- Can be answered with a simple SELECT with basic aggregation\<newline>'' @
     ''- Preserves any time period or filtering context from the original question\<newline>'' @
     ''\<newline>Return a JSON object with this exact format:\<newline>'' @
     ''{\<newline>'' @
     ''    "is_complex": boolean,\<newline>'' @
     ''    "sub_questions": ["sub-question 1", "sub-question 2", ...] (empty array if not complex),\<newline>'' @
     ''    "reasoning": "brief explanation of why this is/isn't complex"\<newline>'' @
     ''}''\<close>

definition complexity_payload :: "string \<Rightarrow> string" where
  "complexity_payload reply =
     sanitize_control (str_strip (strip_code_fences (str_strip reply)))"

definition complexity_fallback :: "string \<Rightarrow> exn \<Rightarrow> json" where
  "complexity_fallback question e =
     JObj [(''is_complex'', JBool False),
           (''sub_questions'', JArr []),
           (''original_question'', JStr question),
           (''reasoning'', JStr (''Failed to analyze complexity: '' @ exn_text e))]"

fun py_type_name :: "json \<Rightarrow> string" where
  "py_type_name JNull = ''NoneType''"
| "py_type_name (JBool b) = ''bool''"
| "py_type_name (JNum n) = (if list_ex (\<lambda>c. c \<in> set ''.eENI'') n then ''float'' else ''int'')"
| "py_type_name (JStr s) = ''str''"
| "py_type_name (JArr xs) = ''list''"
| "py_type_name (JObj kvs) = ''dict''"

definition set_item :: "json \<Rightarrow> string \<Rightarrow> json \<Rightarrow> exn + json" where
  "set_item obj key v =
     (case obj of
        JObj kvs \<Rightarrow> Inr (JObj (dict_set key v kvs))
      | JArr xs \<Rightarrow> Inl (Exn ''TypeError'' ''list indices must be integers or slices, not str'')
      | _ \<Rightarrow> Inl (Exn ''TypeError''
                 ([CHR 0x27] @ py_type_name obj @ [CHR 0x27] @
                  '' object does not support item assignment'')))"

definition detect_complexity ::
  "(string \<Rightarrow> exn + json) \<Rightarrow> SupervisorAgent \<Rightarrow> string \<Rightarrow> string \<Rightarrow> json" where
  "detect_complexity loads agent question schema_info =
     (case llm agent [SystemMessage (system_prompt agent),
                      HumanMessage (complexity_prompt schema_info question)] of
        Inl e \<Rightarrow> complexity_fallback question e
      | Inr reply \<Rightarrow>
          (case loads (complexity_payload reply) of
             Inl e \<Rightarrow> complexity_fallback question e
           | Inr result \<Rightarrow>
               (case set_item result ''original_question'' (JStr question) of
                  Inl e \<Rightarrow> complexity_fallback question e
                | Inr result' \<Rightarrow> result')))"

text \<open>An agent whose model answers every prompt with the given text, and a reply that holds a
  line break inside a JSON string.\<close>

definition replying :: "string \<Rightarrow> SupervisorAgent" where
  "replying reply = \<lparr> llm = (\<lambda>messages. Inr reply), system_prompt = ''You are a supervisor agent.'' \<rparr>"

definition multiline_reply :: string where
  \<open>multiline_reply =
     ''```json\<newline>'' @
     ''{"is_complex": true, "sub_questions": ["volume", "growth"], "reasoning": "two\<newline>metrics"}'' @
     ''\<newline>```''\<close>

subsection \<open>Properties\<close>

text \<open>
  Claim C6, as stated, fails on its own example: for 75 rows the text appended after the
  first 50 rows is \<open>... (showing first 50 of 75 rows)\<close>, which gives the total number of
  rows and does not say that 25 rows were omitted.
\<close>

theorem synthesize_note_counterexample:
  "results_str repr_n_row [0..<75] =
     py_str_list repr_n_row [0..<50] @ ''\<newline>... (showing first 50 of 75 rows)'' \<and>
   \<not> str_contains ''25'' ''\<newline>... (showing first 50 of 75 rows)''"
  by (simp add: results_str_def str_contains_def)

text \<open>
  Claim C6, amended: for a result list of more than 50 rows, the prompt payload is the
  text of the first 50 rows followed by a note \<open>... (showing first 50 of N rows)\<close> on a new
  line, where \<open>N\<close> is the total number of rows; for at most 50 rows, it is the text of all
  the rows and no note. The prompt sent to the model contains this payload, and depends
  on the rows after the 50th only through their number.
\<close>

theorem synthesize_first_50:
  "(length results \<le> 50 \<longrightarrow> results_str repr results = py_str_list repr results) \<and>
   (50 < length results \<longrightarrow>
      results_str repr results =
        py_str_list repr (take 50 results) @
        ''\<newline>... (showing first 50 of '' @ str_of_nat (length results) @ '' rows)'') \<and>
   synthesize_answer agent repr question query results schema_info =
     llm agent
       [SystemMessage (system_prompt agent),
        HumanMessage (synthesize_prompt schema_info question query (results_str repr results))] \<and>
   (take 50 results = take 50 results' \<and> length results = length results' \<longrightarrow>
      synthesize_answer agent repr question query results schema_info =
      synthesize_answer agent repr question query results' schema_info)"
  by (auto simp: results_str_def synthesize_answer_def Let_def)

theorem synthesize_first_50_witness:
  "results_str repr_n_row (map id [0..<75]) =
     py_str_list repr_n_row [0..<50] @ ''\<newline>... (showing first 50 of 75 rows)'' \<and>
   results_str repr_n_row [0, 1, 2] = ''[{'n': 0}, {'n': 1}, {'n': 2}]''"
proof -
  have "results_str repr_n_row [0, 1, 2] = py_str_list repr_n_row [0, 1, 2]"
    using synthesize_first_50 [of "[0, 1, 2]" repr_n_row] by simp
  moreover have "results_str repr_n_row (map id [0..<75]) =
     py_str_list repr_n_row (take 50 (map id [0..<75])) @
       ''\<newline>... (showing first 50 of '' @ str_of_nat (length (map id [0..<75])) @ '' rows)''"
    using synthesize_first_50 [of "map id [0..<75]" repr_n_row] by simp
  ultimately show ?thesis
    by (simp add: py_str_list_def repr_n_row_def)
qed

lemmas payload_defs = verify_payload_def complexity_payload_def strip_code_fences_def
  str_strip_def is_space_def startswith_def endswith_def sanitize_control_def is_control_char_def

lemma suffix_code_eval: "suffix p s = prefix (rev p) (rev s)"
  by (metis prefix_def suffix_def rev_append rev_rev_ident)

lemmas json_eval = json_loads_def skip_ws_def is_json_ws_def json_escapes_def
  scan_constant_def json_constants_def startswith_def

lemma multiline_verify_payload:
  \<open>verify_payload multiline_reply =
     ''{"is_complex": true, "sub_questions": ["volume", "growth"], "reasoning": "two\<newline>metrics"}''\<close>
  by (simp add: payload_defs multiline_reply_def suffix_code_eval)

lemma multiline_complexity_payload:
  \<open>complexity_payload multiline_reply =
     ''{"is_complex": true, "sub_questions": ["volume", "growth"], "reasoning": "two metrics"}''\<close>
  by (simp add: payload_defs multiline_reply_def suffix_code_eval)

lemma multiline_not_json:
  "json_loads (verify_payload multiline_reply) = Inl (Exn ''JSONDecodeError'' ''Expecting value'')"
  unfolding multiline_verify_payload
  by (simp add: json_eval)

lemma multiline_sanitized_json:
  "json_loads (complexity_payload multiline_reply) =
     Inr (JObj [(''is_complex'', JBool True),
                (''sub_questions'', JArr [JStr ''volume'', JStr ''growth'']),
                (''reasoning'', JStr ''two metrics'')])"
  unfolding multiline_complexity_payload
  by (simp add: json_eval)

lemma prose_payloads:
  "verify_payload ''It looks fine to me.'' = ''It looks fine to me.''"
  "complexity_payload ''It looks fine to me.'' = ''It looks fine to me.''"
  by (simp_all add: payload_defs suffix_code_eval)

lemma prose_not_json:
  "json_loads ''It looks fine to me.'' = Inl (Exn ''JSONDecodeError'' ''Expecting value'')"
  by (simp add: json_eval scan_number_def is_digit_def)

text \<open>
  Claim C4, as stated, fails for complexity detection: a reply whose JSON object holds a
  raw line break inside a string does not parse as JSON after code-fence stripping, yet
  \<open>detect_complexity\<close> replaces the line break by a space before parsing and returns the
  decomposition, with \<open>is_complex\<close> true and two sub-questions.
\<close>

theorem complexity_fallback_counterexample:
  "json_loads (verify_payload multiline_reply) = Inl (Exn ''JSONDecodeError'' ''Expecting value'') \<and>
   detect_complexity json_loads (replying multiline_reply) ''How did volume and growth change?'' ''t (a (INT))'' =
     JObj [(''is_complex'', JBool True),
           (''sub_questions'', JArr [JStr ''volume'', JStr ''growth'']),
           (''reasoning'', JStr ''two metrics''),
           (''original_question'', JStr ''How did volume and growth change?'')]"
  by (simp add: multiline_not_json detect_complexity_def replying_def multiline_sanitized_json
      set_item_def)

text \<open>
  Claim C4, amended: when the reply, after code-fence stripping, does not parse as JSON,
  semantic verification returns \<open>valid\<close> true with a feedback that begins
  \<open>Verification failed:\<close>; when the reply, after code-fence stripping and the replacement
  of control characters by spaces, does not parse as JSON, complexity detection returns
  \<open>is_complex\<close> false, an empty list of sub-questions, the original question and a
  reasoning that begins \<open>Failed to analyze complexity:\<close>. Neither operation raises.
\<close>

theorem parse_failure_fallbacks:
  "(llm agent [SystemMessage verify_system_prompt,
               HumanMessage (verify_prompt schema_info query)] = Inr reply \<and>
    loads (verify_payload reply) = Inl e \<longrightarrow>
      verify_query loads agent query schema_info =
        JObj [(''valid'', JBool True),
              (''feedback'', JStr (''Verification failed: '' @ exn_text e))]) \<and>
   (llm agent [SystemMessage (system_prompt agent),
               HumanMessage (complexity_prompt schema_info question)] = Inr reply' \<and>
    loads (complexity_payload reply') = Inl e' \<longrightarrow>
      detect_complexity loads agent question schema_info =
        JObj [(''is_complex'', JBool False),
              (''sub_questions'', JArr []),
              (''original_question'', JStr question),
              (''reasoning'', JStr (''Failed to analyze complexity: '' @ exn_text e'))]) \<and>
   complexity_payload reply' = sanitize_control (verify_payload reply')"
  by (simp add: verify_query_def detect_complexity_def verify_fallback_def
      complexity_fallback_def complexity_payload_def verify_payload_def)

theorem parse_failure_fallbacks_witness:
  "verify_query json_loads (replying ''It looks fine to me.'') ''SELECT 1'' ''t (a (INT))'' =
     JObj [(''valid'', JBool True),
           (''feedback'', JStr ''Verification failed: Expecting value'')] \<and>
   detect_complexity json_loads (replying ''It looks fine to me.'') ''How many?'' ''t (a (INT))'' =
     JObj [(''is_complex'', JBool False),
           (''sub_questions'', JArr []),
           (''original_question'', JStr ''How many?''),
           (''reasoning'', JStr ''Failed to analyze complexity: Expecting value'')]"
  using parse_failure_fallbacks
    [of "replying ''It looks fine to me.''" "''t (a (INT))''" "''SELECT 1''"
        "''It looks fine to me.''" json_loads "Exn ''JSONDecodeError'' ''Expecting value''"
        "''How many?''" "''It looks fine to me.''" "Exn ''JSONDecodeError'' ''Expecting value''"]
  by (simp add: replying_def prose_payloads prose_not_json)

section \<open>Schema registry (src/schema_manager.py)\<close>

subsection \<open>Registry state\<close>

text \<open>
  A \<open>ColumnInfo\<close> is a dictionary with the keys \<open>name\<close>, \<open>type\<close> and \<open>description\<close>. The
  name is a string; the other two entries may be missing from the dictionary
  (\<open>Missing\<close>), hold \<open>None\<close> (\<open>PyNone\<close>) or hold a string. The fields \<open>col_name\<close>, \<open>col_type\<close>
  and \<open>col_description\<close> stand for the three keys.

  The registry holds \<open>_schemas\<close>, a dictionary from table names to column lists, as an
  association list in insertion order, and \<open>_shared_columns\<close>, a finite set of names.
\<close>

datatype 'a py_field = Missing | PyNone | Value 'a

record ColumnInfo =
  col_name :: string
  col_type :: "string py_field"
  col_description :: "string py_field"

type_synonym schema_dict = "(string \<times> ColumnInfo list) list"

record SchemaManager =
  schemas :: schema_dict
  shared_columns :: "string fset"

definition SchemaManager_init :: SchemaManager where
  "SchemaManager_init = \<lparr> schemas = [], shared_columns = {||} \<rparr>"

text \<open>
  \<open>dict_update d other\<close> is \<open>d.update(other)\<close>. \<open>counter_incr k m\<close> is \<open>m[k] += 1\<close> on a
  \<open>Counter\<close>. \<open>_detect_relationships\<close> counts every occurrence of every column name, over
  all the tables, and keeps the names counted more than once.
\<close>

definition dict_update :: "('k \<times> 'v) list \<Rightarrow> ('k \<times> 'v) list \<Rightarrow> ('k \<times> 'v) list" where
  "dict_update d other = fold (\<lambda>(k, v). dict_set k v) other d"

fun counter_incr :: "'k \<Rightarrow> ('k \<times> nat) list \<Rightarrow> ('k \<times> nat) list" where
  "counter_incr k [] = [(k, 1)]"
| "counter_incr k ((k', n) # kvs) =
     (if k' = k then (k', Suc n) # kvs else (k', n) # counter_incr k kvs)"

definition all_column_names :: "schema_dict \<Rightarrow> string list" where
  "all_column_names d = concat (map (\<lambda>(table, columns). map col_name columns) d)"

definition detect_relationships :: "SchemaManager \<Rightarrow> SchemaManager" where
  "detect_relationships self =
     (if schemas self = [] then self\<lparr>shared_columns := {||}\<rparr>
      else
        (let column_counts = fold counter_incr (all_column_names (schemas self)) []
         in self\<lparr>shared_columns :=
                   fset_of_list (map fst (filter (\<lambda>(col, count). count > 1) column_counts))\<rparr>))"

definition update :: "SchemaManager \<Rightarrow> schema_dict \<Rightarrow> SchemaManager" where
  "update self new_schemas =
     detect_relationships (self\<lparr>schemas := dict_update (schemas self) new_schemas\<rparr>)"

subsection \<open>Description\<close>

text \<open>
  \<open>unique_pairs xs\<close> lists the pairs \<open>(xs[i], xs[j])\<close> with \<open>i < j\<close> in the order of the two
  nested loops. \<open>table_columns d table\<close> is \<open>d[table]\<close> for a table name taken from the keys
  of \<open>d\<close>, as in the loops (and \<open>d.get(table, [])\<close> in general). \<open>shared_pairs\<close> is the list
  of table pairs with a common column name that both \<open>_build_relationship_map\<close> and
  \<open>save_to_file\<close> compute.
\<close>

fun unique_pairs :: "'a list \<Rightarrow> ('a \<times> 'a) list" where
  "unique_pairs [] = []"
| "unique_pairs (x # xs) = map (Pair x) xs @ unique_pairs xs"

definition table_columns :: "schema_dict \<Rightarrow> string \<Rightarrow> ColumnInfo list" where
  "table_columns d table = (case map_of d table of None \<Rightarrow> [] | Some columns \<Rightarrow> columns)"

definition column_names :: "schema_dict \<Rightarrow> string \<Rightarrow> string set" where
  "column_names d table = set (map col_name (table_columns d table))"

definition common_columns :: "schema_dict \<Rightarrow> string \<Rightarrow> string \<Rightarrow> string list" where
  "common_columns d table_a table_b =
     sorted_list_of_set (column_names d table_a \<inter> column_names d table_b)"

definition shared_pairs :: "schema_dict \<Rightarrow> (string \<times> string \<times> string list) list" where
  "shared_pairs d =
     concat (map (\<lambda>(table_a, table_b).
                    let common = common_columns d table_a table_b
                    in if common \<noteq> [] then [(table_a, table_b, common)] else [])
                 (unique_pairs (sort (map fst d))))"

definition relationship_line :: "string \<times> string \<times> string list \<Rightarrow> string" where
  "relationship_line r =
     (case r of (table_a, table_b, links) \<Rightarrow>
        ''- '' @ table_a @ '' and '' @ table_b @ '' are linked by: '' @ str_join '', '' links)"

definition build_relationship_map :: "SchemaManager \<Rightarrow> string" where
  "build_relationship_map self =
     (if schemas self = [] \<or> length (schemas self) < 2 then []
      else
        (let relationships = map relationship_line (shared_pairs (schemas self))
         in if relationships = [] then []
            else ''\<newline>\<newline>Detected Relationships:\<newline>'' @ str_join ''\<newline>'' relationships))"

text \<open>
  In \<open>describe\<close>, \<open>col.get('type', 'UNKNOWN')\<close> gives \<open>UNKNOWN\<close> for a missing key, and a
  \<open>None\<close> that is present is formatted as the text \<open>None\<close>; the description is appended
  when it is a non-empty string. \<open>sorted(self._schemas.items())\<close> orders the tables by
  name, the keys of a dictionary being distinct.
\<close>

definition type_label :: "ColumnInfo \<Rightarrow> string" where
  "type_label col =
     (case col_type col of Missing \<Rightarrow> ''UNKNOWN'' | PyNone \<Rightarrow> ''None'' | Value t \<Rightarrow> t)"

definition description_text :: "ColumnInfo \<Rightarrow> string" where
  "description_text col =
     (case col_description col of Missing \<Rightarrow> [] | PyNone \<Rightarrow> [] | Value d \<Rightarrow> d)"

definition describe_column :: "string fset \<Rightarrow> ColumnInfo \<Rightarrow> string" where
  "describe_column shared col =
     (let name = col_name col;
          dtype = type_label col;
          desc = description_text col;
          shared_tag = (if name |\<in>| shared then '' [SHARED KEY]'' else []);
          col_str = name @ '' ('' @ dtype @ '')'' @ shared_tag
      in if desc \<noteq> [] then col_str @ '': '' @ desc else col_str)"

definition describe_table :: "string fset \<Rightarrow> string \<times> ColumnInfo list \<Rightarrow> string" where
  "describe_table shared entry =
     (case entry of (table, columns) \<Rightarrow>
        table @ '' ('' @ str_join '', '' (map (describe_column shared) columns) @ '')'')"

definition describe :: "SchemaManager \<Rightarrow> string" where
  "describe self =
     (if schemas self = [] then ''No tables loaded.''
      else
        str_join ''; '' (map (describe_table (shared_columns self)) (sort_key fst (schemas self)))
        @ build_relationship_map self)"

subsection \<open>Snapshot files\<close>

text \<open>
  A file is either text that \<open>json.load\<close> rejects or a document, identified with the
  value \<open>json.load\<close> returns for it; \<open>json.dump\<close> writes the document of the value it is
  given. A column list is written as a JSON array of objects and read back as such;
  the functions \<open>..._to_json\<close> and \<open>..._of_json\<close> are this correspondence between the
  registry's values and JSON values. The timestamp is a parameter.
\<close>

datatype file_data = Text string | Document json

type_synonym filesystem = "string \<rightharpoonup> file_data"

definition field_to_json :: "string \<Rightarrow> string py_field \<Rightarrow> (string \<times> json) list" where
  "field_to_json key f =
     (case f of Missing \<Rightarrow> [] | PyNone \<Rightarrow> [(key, JNull)] | Value s \<Rightarrow> [(key, JStr s)])"

definition column_to_json :: "ColumnInfo \<Rightarrow> json" where
  "column_to_json c =
     JObj ((''name'', JStr (col_name c)) #
           field_to_json ''type'' (col_type c) @
           field_to_json ''description'' (col_description c))"

definition table_to_json :: "string \<times> ColumnInfo list \<Rightarrow> string \<times> json" where
  "table_to_json entry =
     (case entry of (table, columns) \<Rightarrow> (table, JArr (map column_to_json columns)))"

definition schemas_to_json :: "schema_dict \<Rightarrow> json" where
  "schemas_to_json d = JObj (map table_to_json d)"

definition field_of_json :: "json option \<Rightarrow> string py_field option" where
  "field_of_json v =
     (case v of
        None \<Rightarrow> Some Missing
      | Some JNull \<Rightarrow> Some PyNone
      | Some (JStr s) \<Rightarrow> Some (Value s)
      | Some _ \<Rightarrow> None)"

definition column_of_json :: "json \<Rightarrow> ColumnInfo option" where
  "column_of_json j =
     (case j of
        JObj kvs \<Rightarrow>
          (case (map_of kvs ''name'', field_of_json (map_of kvs ''type''),
                 field_of_json (map_of kvs ''description'')) of
             (Some (JStr n), Some t, Some d) \<Rightarrow>
               Some \<lparr> col_name = n, col_type = t, col_description = d \<rparr>
           | _ \<Rightarrow> None)
      | _ \<Rightarrow> None)"

definition table_of_json :: "string \<times> json \<Rightarrow> (string \<times> ColumnInfo list) option" where
  "table_of_json entry =
     (case entry of
        (table, JArr columns) \<Rightarrow> map_option (Pair table) (those (map column_of_json columns))
      | _ \<Rightarrow> None)"

definition schemas_of_json :: "json \<Rightarrow> schema_dict option" where
  "schemas_of_json j =
     (case j of JObj kvs \<Rightarrow> those (map table_of_json kvs) | _ \<Rightarrow> None)"

definition relationship_to_json :: "string \<times> string \<times> string list \<Rightarrow> json" where
  "relationship_to_json r =
     (case r of (table_a, table_b, common) \<Rightarrow>
        JObj [(''table_a'', JStr table_a), (''table_b'', JStr table_b),
              (''shared_columns'', JArr (map JStr common))])"

definition snapshot :: "string \<Rightarrow> SchemaManager \<Rightarrow> json" where
  "snapshot generated_at self =
     JObj [(''tables'', schemas_to_json (schemas self)),
           (''relationships'', JArr (map relationship_to_json (shared_pairs (schemas self)))),
           (''shared_columns'', JArr (map JStr (sorted_list_of_fset (shared_columns self)))),
           (''generated_at'', JStr generated_at)]"

definition save_to_file :: "filesystem \<Rightarrow> string \<Rightarrow> string \<Rightarrow> SchemaManager \<Rightarrow> filesystem" where
  "save_to_file fs path generated_at self = fs(path \<mapsto> Document (snapshot generated_at self))"

text \<open>
  \<open>load_from_file\<close> returns a flag and leaves a registry, or raises: an exception other
  than \<open>JSONDecodeError\<close> and \<open>KeyError\<close> is not caught. \<open>Untyped\<close> stands for the runs in
  which the call stores a value that is not a table dictionary or not a set of names
  (the file's \<open>tables\<close> or \<open>shared_columns\<close> entry has another shape). \<open>py_set j\<close> is
  \<open>set(j)\<close>.

  An outcome \<open>Raises\<close> does not record the registry the call leaves behind: when \<open>set(...)\<close>
  raises, the code has already replaced the table dictionary. A file is a JSON document or
  a text that \<open>json.load\<close> rejects; a file that is not valid UTF-8, for which the call raises
  \<open>UnicodeDecodeError\<close>, is not modelled.
\<close>

datatype 'a outcome = Returns 'a | Raises exn | Untyped

definition dict_get :: "(string \<times> json) list \<Rightarrow> string \<Rightarrow> json \<Rightarrow> json" where
  "dict_get kvs key dflt = (case map_of kvs key of None \<Rightarrow> dflt | Some v \<Rightarrow> v)"

fun json_str :: "json \<Rightarrow> string option" where
  "json_str (JStr s) = Some s"
| "json_str _ = None"

fun unhashable :: "json \<Rightarrow> bool" where
  "unhashable (JArr xs) = True"
| "unhashable (JObj kvs) = True"
| "unhashable _ = False"

definition py_set :: "json \<Rightarrow> string fset outcome" where
  "py_set j =
     (case j of
        JArr xs \<Rightarrow>
          (case those (map json_str xs) of
             Some names \<Rightarrow> Returns (fset_of_list names)
           | None \<Rightarrow>
               (case filter unhashable xs of
                  [] \<Rightarrow> Untyped
                | x # _ \<Rightarrow>
                    Raises (Exn ''TypeError''
                      (''unhashable type: '' @ [CHR 0x27] @ py_type_name x @ [CHR 0x27]))))
      | JStr s \<Rightarrow> Returns (fset_of_list (map (\<lambda>c. [c]) s))
      | JObj kvs \<Rightarrow> Returns (fset_of_list (map fst kvs))
      | _ \<Rightarrow> Raises (Exn ''TypeError''
                 ([CHR 0x27] @ py_type_name j @ [CHR 0x27] @ '' object is not iterable'')))"

definition load_from_file ::
  "filesystem \<Rightarrow> string \<Rightarrow> SchemaManager \<Rightarrow> (bool \<times> SchemaManager) outcome" where
  "load_from_file fs path self =
     (case fs path of
        None \<Rightarrow> Returns (False, self)
      | Some (Text t) \<Rightarrow> Returns (False, self)
      | Some (Document data) \<Rightarrow>
          (case data of
             JObj kvs \<Rightarrow>
               (case py_set (dict_get kvs ''shared_columns'' (JArr [])) of
                  Raises e \<Rightarrow> Raises e
                | Untyped \<Rightarrow> Untyped
                | Returns shared \<Rightarrow>
                    (case schemas_of_json (dict_get kvs ''tables'' (JObj [])) of
                       None \<Rightarrow> Untyped
                     | Some tables \<Rightarrow>
                         Returns (True, self\<lparr>schemas := tables, shared_columns := shared\<rparr>)))
           | _ \<Rightarrow>
               Raises (Exn ''AttributeError''
                 ([CHR 0x27] @ py_type_name data @ [CHR 0x27] @
                  '' object has no attribute '' @ [CHR 0x27] @ ''get'' @ [CHR 0x27]))))"

subsection \<open>Notions of the specification, and sample registries\<close>

text \<open>
  \<open>tables_with_column d c\<close> lists the tables whose column list contains the name \<open>c\<close>;
  \<open>no_repeated_columns d\<close> says that no table lists a column name twice.
\<close>

definition tables_with_column :: "schema_dict \<Rightarrow> string \<Rightarrow> string list" where
  "tables_with_column d c = map fst (filter (\<lambda>(table, columns). c \<in> set (map col_name columns)) d)"

definition no_repeated_columns :: "schema_dict \<Rightarrow> bool" where
  "no_repeated_columns d = list_all (\<lambda>(table, columns). distinct (map col_name columns)) d"

definition column :: "string \<Rightarrow> string \<Rightarrow> ColumnInfo" where
  "column n t = \<lparr> col_name = n, col_type = Value t, col_description = PyNone \<rparr>"

definition trips :: schema_dict where
  "trips =
     [(''trip_forms'', [column ''trip_form_id'' ''INTEGER'', column ''profile_segment'' ''STRING'']),
      (''requests'', [column ''id'' ''INTEGER'', column ''trip_form_id'' ''INTEGER''])]"

definition repeated :: schema_dict where
  "repeated = [(''t'', [column ''x'' ''INT'', column ''x'' ''INT''])]"

definition two_tables :: schema_dict where
  "two_tables = [(''a'', [column ''id'' ''INT'']), (''b'', [column ''id'' ''INT''])]"

subsection \<open>Properties of the counter and of the pair loops\<close>

definition lookup0 :: "('k \<times> nat) list \<Rightarrow> 'k \<Rightarrow> nat" where
  "lookup0 m k = (case map_of m k of None \<Rightarrow> 0 | Some n \<Rightarrow> n)"

lemma lookup0_incr: "lookup0 (counter_incr k m) k' = lookup0 m k' + (if k' = k then 1 else 0)"
  by (induction m) (auto simp: lookup0_def)

lemma keys_incr:
  "map fst (counter_incr k m) = (if k \<in> fst ` set m then map fst m else map fst m @ [k])"
  by (induction m) (force simp: image_iff)+

lemma distinct_incr: "distinct (map fst m) \<Longrightarrow> distinct (map fst (counter_incr k m))"
  by (simp add: keys_incr)

lemma lookup0_fold:
  "lookup0 (fold counter_incr xs m) k = lookup0 m k + count_list xs k"
  by (induction xs arbitrary: m) (auto simp: lookup0_incr)

lemma distinct_fold:
  "distinct (map fst m) \<Longrightarrow> distinct (map fst (fold counter_incr xs m))"
  by (induction xs arbitrary: m) (auto simp: distinct_incr)

lemma filter_count_keys:
  "distinct (map fst m) \<Longrightarrow>
   k \<in> set (map fst (filter (\<lambda>(c, n). P n) m)) \<longleftrightarrow> (\<exists>n. map_of m k = Some n \<and> P n)"
  by (induction m) (auto simp: rev_image_eqI)

lemma shared_after_detect:
  "c |\<in>| shared_columns (detect_relationships self) \<longleftrightarrow>
     1 < count_list (all_column_names (schemas self)) c"
proof (cases "schemas self = []")
  case True
  then show ?thesis by (simp add: detect_relationships_def all_column_names_def)
next
  case False
  let ?m = "fold counter_incr (all_column_names (schemas self)) []"
  have d: "distinct (map fst ?m)" by (rule distinct_fold) simp
  have l: "lookup0 ?m c = count_list (all_column_names (schemas self)) c"
    unfolding lookup0_fold by (simp add: lookup0_def)
  have "c |\<in>| shared_columns (detect_relationships self) \<longleftrightarrow>
        c \<in> set (map fst (filter (\<lambda>(col, count). 1 < count) ?m))"
    using False by (force simp add: detect_relationships_def fset_of_list.rep_eq Let_def)
  also have "\<dots> \<longleftrightarrow> (\<exists>n. map_of ?m c = Some n \<and> 1 < n)"
    by (rule filter_count_keys [OF d])
  also have "\<dots> \<longleftrightarrow> 1 < lookup0 ?m c"
    by (auto simp: lookup0_def split: option.splits)
  finally show ?thesis by (simp add: l)
qed

lemma count_distinct: "distinct xs \<Longrightarrow> count_list xs c = (if c \<in> set xs then 1 else 0)"
  by (induction xs) auto

lemma count_all_names:
  "no_repeated_columns d \<Longrightarrow>
   count_list (all_column_names d) c = length (tables_with_column d c)"
  by (induction d)
     (auto simp: no_repeated_columns_def all_column_names_def tables_with_column_def
        count_distinct)

lemma unique_pairs_set:
  "sorted xs \<Longrightarrow> distinct xs \<Longrightarrow>
   set (unique_pairs xs) = {(a, b). a \<in> set xs \<and> b \<in> set xs \<and> a < b}"
  by (induction xs) (auto simp: less_le)

lemma unique_pairs_mem: "(a, b) \<in> set (unique_pairs xs) \<Longrightarrow> a \<in> set xs \<and> b \<in> set xs"
  by (induction xs) auto

lemma unique_pairs_distinct: "distinct xs \<Longrightarrow> distinct (unique_pairs xs)"
  by (induction xs) (auto simp: distinct_map inj_on_def dest: unique_pairs_mem)

lemma unique_pairs_short: "length xs < 2 \<Longrightarrow> unique_pairs xs = []"
  by (cases xs rule: unique_pairs.cases) auto

lemma shared_pairs_short: "length d < 2 \<Longrightarrow> shared_pairs d = []"
  by (simp add: shared_pairs_def unique_pairs_short)

lemma build_relationship_map_eq:
  "build_relationship_map self =
     (if shared_pairs (schemas self) = [] then []
      else ''\<newline>\<newline>Detected Relationships:\<newline>'' @
           str_join ''\<newline>'' (map relationship_line (shared_pairs (schemas self))))"
  by (auto simp: build_relationship_map_def shared_pairs_short Let_def)

lemma common_columns_empty:
  "common_columns d a b = [] \<longleftrightarrow> column_names d a \<inter> column_names d b = {}"
  by (simp add: common_columns_def column_names_def)

lemma shared_pairs_set:
  assumes "distinct (map fst d)"
  shows "set (shared_pairs d) =
           {(a, b, sorted_list_of_set (column_names d a \<inter> column_names d b)) | a b.
              a \<in> fst ` set d \<and> b \<in> fst ` set d \<and> a < b \<and>
              column_names d a \<inter> column_names d b \<noteq> {}}"
proof -
  have ps: "set (unique_pairs (sort (map fst d))) =
              {(a, b). a \<in> fst ` set d \<and> b \<in> fst ` set d \<and> a < b}"
    using assms by (simp add: unique_pairs_set)
  have "set (shared_pairs d) =
          {(a, b, common_columns d a b) | a b.
             (a, b) \<in> set (unique_pairs (sort (map fst d))) \<and> common_columns d a b \<noteq> []}"
    by (auto simp: shared_pairs_def Let_def split: if_splits)
  also have "\<dots> = {(a, b, sorted_list_of_set (column_names d a \<inter> column_names d b)) | a b.
              a \<in> fst ` set d \<and> b \<in> fst ` set d \<and> a < b \<and>
              column_names d a \<inter> column_names d b \<noteq> {}}"
    unfolding ps common_columns_empty by (auto simp: common_columns_def)
  finally show ?thesis .
qed

lemma shared_pairs_distinct:
  assumes "distinct (map fst d)"
  shows "distinct (shared_pairs d)"
proof -
  have "distinct (unique_pairs (sort (map fst d)))"
    using assms by (simp add: unique_pairs_distinct)
  moreover have "\<And>ps. distinct ps \<Longrightarrow>
      distinct (concat (map (\<lambda>(table_a, table_b).
                    let common = common_columns d table_a table_b
                    in if common \<noteq> [] then [(table_a, table_b, common)] else []) ps))"
  proof -
    fix ps :: "(string \<times> string) list"
    show "distinct ps \<Longrightarrow>
      distinct (concat (map (\<lambda>(table_a, table_b).
                    let common = common_columns d table_a table_b
                    in if common \<noteq> [] then [(table_a, table_b, common)] else []) ps))"
      by (induction ps) (auto simp: Let_def split: if_splits)
  qed
  ultimately show ?thesis by (simp add: shared_pairs_def)
qed

lemma shared_after_update:
  assumes "no_repeated_columns (schemas (update self new_schemas))"
  shows "name |\<in>| shared_columns (update self new_schemas) \<longleftrightarrow>
           1 < length (tables_with_column (schemas (update self new_schemas)) name)"
proof -
  let ?s = "self\<lparr>schemas := dict_update (schemas self) new_schemas\<rparr>"
  have same: "schemas (update self new_schemas) = schemas ?s"
    by (simp add: update_def detect_relationships_def Let_def)
  have "name |\<in>| shared_columns (update self new_schemas) \<longleftrightarrow>
          1 < count_list (all_column_names (schemas ?s)) name"
    unfolding update_def by (rule shared_after_detect)
  also have "\<dots> \<longleftrightarrow> 1 < length (tables_with_column (schemas ?s) name)"
    using assms unfolding same by (simp add: count_all_names)
  finally show ?thesis unfolding same .
qed

subsection \<open>Properties of the description\<close>

text \<open>
  Claim C5, as stated, fails for the shared-key tag, which follows the registry's
  shared-column set and not the tables. After \<open>update\<close> with a table that lists the
  column \<open>x\<close> twice, \<open>x\<close> is counted twice and tagged, though it occurs in one table only.
  After \<open>load_from_file\<close> of a snapshot with two tables that both have the column \<open>id\<close>
  and no \<open>shared_columns\<close> entry, the set is empty and \<open>id\<close> is not tagged, though the
  relationship section lists it.
\<close>

theorem shared_key_counterexample:
  "describe (update SchemaManager_init repeated) =
     ''t (x (INT) [SHARED KEY], x (INT) [SHARED KEY])'' \<and>
   tables_with_column (schemas (update SchemaManager_init repeated)) ''x'' = [''t''] \<and>
   load_from_file [''schema.json'' \<mapsto> Document (JObj [(''tables'', schemas_to_json two_tables)])]
     ''schema.json'' SchemaManager_init
   = Returns (True, \<lparr> schemas = two_tables, shared_columns = {||} \<rparr>) \<and>
   describe \<lparr> schemas = two_tables, shared_columns = {||} \<rparr> =
     ''a (id (INT)); b (id (INT))\<newline>\<newline>Detected Relationships:\<newline>- a and b are linked by: id'' \<and>
   tables_with_column two_tables ''id'' = [''a'', ''b'']"
  by code_simp

text \<open>
  Claim C5, amended: for every registry state (a dictionary of tables, so with distinct
  table names), \<open>describe\<close> returns exactly \<open>No tables loaded.\<close> when there is no table;
  otherwise it renders the tables in lexicographic order of their names, joined by a
  semicolon and a space, each as \<open>table (columns)\<close>; a column is rendered as its name,
  its type label in parentheses (\<open>UNKNOWN\<close> when the column has no type entry), the tag
  \<open>[SHARED KEY]\<close> if and only if its name is in the registry's shared-column set, and a
  colon and the description unless the description is absent or empty. After \<open>update\<close>,
  if no table lists a column name twice, the shared-column set holds exactly the names
  that occur in more than one table's column list. The relationship section lists one
  line \<open>- A and B are linked by: ...\<close>, the shared names sorted, for each pair of tables
  \<open>A < B\<close> with a non-empty intersection of column names, and is omitted when there is
  no such pair.
\<close>

theorem describe_format:
  assumes "distinct (map fst (schemas self))"
  shows
  "(schemas self = [] \<longrightarrow> describe self = ''No tables loaded.'') \<and>
   (schemas self \<noteq> [] \<longrightarrow>
      describe self =
        str_join ''; '' (map (describe_table (shared_columns self)) (sort_key fst (schemas self)))
        @ build_relationship_map self \<and>
      sorted (map fst (sort_key fst (schemas self))) \<and>
      mset (sort_key fst (schemas self)) = mset (schemas self)) \<and>
   describe_table shared (table, columns) =
     table @ '' ('' @ str_join '', '' (map (describe_column shared) columns) @ '')'' \<and>
   describe_column shared c =
     col_name c @ '' ('' @ type_label c @ '')'' @
     (if col_name c |\<in>| shared then '' [SHARED KEY]'' else []) @
     (if description_text c = [] then [] else '': '' @ description_text c) \<and>
   (col_type c = Missing \<longrightarrow> type_label c = ''UNKNOWN'') \<and>
   (col_description c = Missing \<or> col_description c = PyNone \<longrightarrow> description_text c = []) \<and>
   (no_repeated_columns (schemas (update self new_schemas)) \<longrightarrow>
      (name |\<in>| shared_columns (update self new_schemas) \<longleftrightarrow>
         1 < length (tables_with_column (schemas (update self new_schemas)) name))) \<and>
   build_relationship_map self =
     (if shared_pairs (schemas self) = [] then []
      else ''\<newline>\<newline>Detected Relationships:\<newline>'' @
           str_join ''\<newline>'' (map relationship_line (shared_pairs (schemas self)))) \<and>
   set (shared_pairs (schemas self)) =
     {(a, b, sorted_list_of_set (column_names (schemas self) a \<inter> column_names (schemas self) b))
        | a b. a \<in> fst ` set (schemas self) \<and> b \<in> fst ` set (schemas self) \<and> a < b \<and>
               column_names (schemas self) a \<inter> column_names (schemas self) b \<noteq> {}} \<and>
   distinct (shared_pairs (schemas self)) \<and>
   relationship_line (table_a, table_b, links) =
     ''- '' @ table_a @ '' and '' @ table_b @ '' are linked by: '' @ str_join '', '' links"
proof -
  have 1: "schemas self = [] \<longrightarrow> describe self = ''No tables loaded.''"
    by (simp add: describe_def)
  have 2: "schemas self \<noteq> [] \<longrightarrow>
      describe self =
        str_join ''; '' (map (describe_table (shared_columns self)) (sort_key fst (schemas self)))
        @ build_relationship_map self \<and>
      sorted (map fst (sort_key fst (schemas self))) \<and>
      mset (sort_key fst (schemas self)) = mset (schemas self)"
    by (simp add: describe_def)
  have 3: "describe_table shared (table, columns) =
     table @ '' ('' @ str_join '', '' (map (describe_column shared) columns) @ '')''"
    by (simp add: describe_table_def)
  have 4: "describe_column shared c =
     col_name c @ '' ('' @ type_label c @ '')'' @
     (if col_name c |\<in>| shared then '' [SHARED KEY]'' else []) @
     (if description_text c = [] then [] else '': '' @ description_text c)"
    by (simp add: describe_column_def Let_def)
  have 5: "col_type c = Missing \<longrightarrow> type_label c = ''UNKNOWN''"
    by (simp add: type_label_def)
  have 6: "col_description c = Missing \<or> col_description c = PyNone \<longrightarrow> description_text c = []"
    by (auto simp: description_text_def)
  have 7: "relationship_line (table_a, table_b, links) =
     ''- '' @ table_a @ '' and '' @ table_b @ '' are linked by: '' @ str_join '', '' links"
    by (simp add: relationship_line_def)
  from 1 2 3 4 5 6 7 shared_after_update [of self new_schemas name]
    build_relationship_map_eq [of self] shared_pairs_set [OF assms] shared_pairs_distinct [OF assms]
  show ?thesis by blast
qed

theorem describe_format_witness:
  "distinct (map fst (schemas (update SchemaManager_init trips))) \<and>
   no_repeated_columns (schemas (update SchemaManager_init trips)) \<and>
   describe (update SchemaManager_init trips) =
     ''requests (id (INTEGER), trip_form_id (INTEGER) [SHARED KEY]); trip_forms (trip_form_id (INTEGER) [SHARED KEY], profile_segment (STRING))\<newline>\<newline>Detected Relationships:\<newline>- requests and trip_forms are linked by: trip_form_id'' \<and>
   ''trip_form_id'' |\<in>| shared_columns (update SchemaManager_init trips) \<and>
   describe SchemaManager_init = ''No tables loaded.''"
proof -
  have d: "distinct (map fst (schemas (update SchemaManager_init trips)))"
    by code_simp
  have e: "distinct (map fst (schemas SchemaManager_init))"
    by (simp add: SchemaManager_init_def)
  have n: "no_repeated_columns (schemas (update SchemaManager_init trips))"
    by code_simp
  have ne: "schemas (update SchemaManager_init trips) \<noteq> []"
    by code_simp
  have t: "1 < length (tables_with_column (schemas (update SchemaManager_init trips)) ''trip_form_id'')"
    by code_simp
  have v: "str_join ''; '' (map (describe_table (shared_columns (update SchemaManager_init trips)))
             (sort_key fst (schemas (update SchemaManager_init trips))))
           @ build_relationship_map (update SchemaManager_init trips) =
     ''requests (id (INTEGER), trip_form_id (INTEGER) [SHARED KEY]); trip_forms (trip_form_id (INTEGER) [SHARED KEY], profile_segment (STRING))\<newline>\<newline>Detected Relationships:\<newline>- requests and trip_forms are linked by: trip_form_id''"
    by code_simp
  have u: "update (update SchemaManager_init trips) [] = update SchemaManager_init trips"
    by code_simp
  from describe_format [OF d, of _ _ _ _ "[]" "''trip_form_id''"] ne v n t u
  have "describe (update SchemaManager_init trips) =
     ''requests (id (INTEGER), trip_form_id (INTEGER) [SHARED KEY]); trip_forms (trip_form_id (INTEGER) [SHARED KEY], profile_segment (STRING))\<newline>\<newline>Detected Relationships:\<newline>- requests and trip_forms are linked by: trip_form_id''"
    and "''trip_form_id'' |\<in>| shared_columns (update SchemaManager_init trips)"
    by simp_all
  moreover from describe_format [OF e]
  have "describe SchemaManager_init = ''No tables loaded.''"
    by (simp add: SchemaManager_init_def)
  ultimately show ?thesis using d n by simp
qed

subsection \<open>Properties of saving and loading\<close>

lemma column_roundtrip: "column_of_json (column_to_json c) = Some c"
proof (cases c)
  case (fields n t d)
  then show ?thesis
    by (cases t; cases d)
       (simp_all add: column_of_json_def column_to_json_def field_to_json_def field_of_json_def)
qed

lemma those_roundtrip_comp:
  "(\<And>x. dec (enc x) = Some x) \<Longrightarrow> those (map (dec \<circ> enc) xs) = Some xs"
  by (induction xs) simp_all

lemma those_roundtrip:
  "(\<And>x. dec (enc x) = Some x) \<Longrightarrow> those (map dec (map enc xs)) = Some xs"
  by (simp add: those_roundtrip_comp)

lemma table_roundtrip: "table_of_json (table_to_json entry) = Some entry"
  by (cases entry) (simp add: table_of_json_def table_to_json_def those_roundtrip_comp column_roundtrip)

lemma schemas_roundtrip: "schemas_of_json (schemas_to_json d) = Some d"
  by (simp add: schemas_of_json_def schemas_to_json_def those_roundtrip_comp table_roundtrip)

lemma those_json_str: "those (map json_str (map JStr xs)) = Some xs"
  by (rule those_roundtrip) simp

lemma shared_roundtrip: "py_set (JArr (map JStr (sorted_list_of_fset S))) = Returns S"
  unfolding py_set_def by (simp only: those_json_str json.case option.case sorted_list_of_fset_simps)

lemma load_failure_unchanged:
  "fs path = None \<or> (\<exists>t. fs path = Some (Text t)) \<Longrightarrow>
   load_from_file fs path self = Returns (False, self)"
  by (auto simp: load_from_file_def)

text \<open>
  Claim C7 at a file that is present and misses the expected keys: the document \<open>{}\<close>.
  \<open>load_from_file\<close> on a registry that holds two tables returns \<open>True\<close> and leaves the
  registry empty, where the claim says it returns failure and leaves the registry
  unchanged (for an absent file and for a file that is not JSON it does return \<open>False\<close>
  and leaves the registry unchanged, lemma \<open>load_failure_unchanged\<close>).
\<close>

theorem load_missing_keys:
  "load_from_file [''schema.json'' \<mapsto> Document (JObj [])] ''schema.json''
     (update SchemaManager_init trips)
   = Returns (True, \<lparr> schemas = [], shared_columns = {||} \<rparr>) \<and>
   schemas (update SchemaManager_init trips) = trips \<and>
   shared_columns (update SchemaManager_init trips) = {|''trip_form_id''|}"
  by code_simp

text \<open>
  Claim C8: for every registry state, \<open>save_to_file\<close> followed by \<open>load_from_file\<close> on a
  fresh registry returns \<open>True\<close> and leaves a registry with the same table dictionary
  (the same tables in the same order, each with the same columns in the same order)
  and the same shared-column set.
\<close>

theorem save_load_roundtrip:
  "load_from_file (save_to_file fs path generated_at self) path SchemaManager_init =
     Returns (True, self)"
  by (simp add: load_from_file_def save_to_file_def snapshot_def dict_get_def
      schemas_roundtrip shared_roundtrip SchemaManager_init_def)

theorem save_load_roundtrip_witness:
  "load_from_file
     (save_to_file Map.empty ''schema.json'' ''2025-01-01T00:00:00'' (update SchemaManager_init trips))
     ''schema.json'' SchemaManager_init
   = Returns (True, \<lparr> schemas = trips, shared_columns = {|''trip_form_id''|} \<rparr>)"
proof -
  have "schemas (update SchemaManager_init trips) = trips"
       "shared_columns (update SchemaManager_init trips) = {|''trip_form_id''|}"
    by code_simp+
  with save_load_roundtrip [of Map.empty "''schema.json''" "''2025-01-01T00:00:00''"
      "update SchemaManager_init trips"]
  show ?thesis by simp
qed

section \<open>Workflow orchestration (src/graph.py)\<close>

text \<open>
  \<^verbatim>\<open>AgenticGraph\<close> wires nine nodes into a LangGraph state machine. The model keeps the
  nodes and the routing functions of the class one to one and runs them with a scheduler
  (\<open>invoke_from\<close>) that follows the edges declared in \<^verbatim>\<open>_build_graph\<close>: one node per step,
  the next node chosen by the conditional edge of the node just run, the run over at
  \<^verbatim>\<open>END\<close>. The recursion limit of the LangGraph runtime is not part of the model.

  \<^verbatim>\<open>GraphState\<close> is a dictionary in which \<^verbatim>\<open>run\<close> sets every key, so \<^verbatim>\<open>state.get(k, d)\<close>
  never falls back on \<open>d\<close>: it reads the value of the key, which may be \<^verbatim>\<open>None\<close>. An optional
  field is an \<open>option\<close>, with \<open>None\<close> for Python's \<^verbatim>\<open>None\<close>.

  The calls that leave this class are fields of the record \<open>services\<close>: the four methods of
  the supervisor agent and the one of the coding agent (their answers come from a language
  model), and the two methods of \<^verbatim>\<open>DuckDBManager\<close> (src/db_manager.py is not part of the
  sources at hand, so the database is a parameter). Each takes the number of the step that
  makes the call, so that two calls with the same arguments may answer differently, and
  returns \<open>Inl\<close> for a raised exception. The dictionary returned by
  \<^verbatim>\<open>detect_complexity\<close> is the record \<open>complexity\<close>, the one returned by
  \<^verbatim>\<open>validate_schema\<close> the record \<open>verification\<close>; a field that is \<open>None\<close> is a key the
  dictionary does not hold, and \<^verbatim>\<open>is_complex\<close> is taken to be a boolean when present.
\<close>

subsection \<open>State, services and nodes\<close>

record 'r sub_result =
  sr_sub_question :: string
  sr_query :: "string option"
  sr_results :: "'r list option"

record 'r GraphState =
  messages :: "message list"
  question :: string
  original_question :: "string option"
  schema_info :: string
  query :: "string option"
  results :: "'r list option"
  answer :: "string option"
  error :: "string option"
  needs_query :: "bool option"
  query_is_valid :: "bool option"
  query_feedback :: "string option"
  retries :: nat
  is_complex :: "bool option"
  sub_questions :: "string list option"
  current_sub_question_index :: nat
  sub_results :: "'r sub_result list option"

record complexity =
  c_is_complex :: "bool option"
  c_sub_questions :: "string list option"
  c_original_question :: "string option"
  c_reasoning :: "string option"

record verification =
  v_valid :: "bool option"
  v_error :: "string option"

record 'r services =
  analyze_question :: "nat \<Rightarrow> string \<Rightarrow> string \<Rightarrow> exn + string"
  detect_complexity_of :: "nat \<Rightarrow> string \<Rightarrow> string \<Rightarrow> exn + complexity"
  generate_query :: "nat \<Rightarrow> string \<Rightarrow> string \<Rightarrow> string option \<Rightarrow> string option \<Rightarrow> exn + string"
  validate_schema :: "nat \<Rightarrow> string option \<Rightarrow> exn + verification"
  db_query :: "nat \<Rightarrow> string \<Rightarrow> exn + 'r list"
  synthesize_answer_of ::
    "nat \<Rightarrow> string \<Rightarrow> string option \<Rightarrow> 'r list option \<Rightarrow> string \<Rightarrow> exn + string"
  aggregate_results ::
    "nat \<Rightarrow> string option \<Rightarrow> 'r sub_result list \<Rightarrow> string \<Rightarrow> exn + string"

definition max_retries :: nat where
  "max_retries = 3"

definition truthy_str :: "string option \<Rightarrow> bool" where
  "truthy_str x = (case x of None \<Rightarrow> False | Some s \<Rightarrow> s \<noteq> [])"

definition truthy_bool :: "bool option \<Rightarrow> bool" where
  "truthy_bool x = (x = Some True)"

definition truthy_list :: "'a list option \<Rightarrow> bool" where
  "truthy_list x = (case x of None \<Rightarrow> False | Some xs \<Rightarrow> xs \<noteq> [])"

definition or_default :: "'a option \<Rightarrow> 'a \<Rightarrow> 'a" where
  "or_default x d = (case x of None \<Rightarrow> d | Some v \<Rightarrow> v)"

definition py_len :: "'a list option \<Rightarrow> exn + nat" where
  "py_len x =
     (case x of
        None \<Rightarrow> Inl (Exn ''TypeError'' ''object of type 'NoneType' has no len()'')
      | Some xs \<Rightarrow> Inr (length xs))"

definition supervisor_node :: "'r services \<Rightarrow> nat \<Rightarrow> 'r GraphState \<Rightarrow> 'r GraphState" where
  "supervisor_node svc t state =
     (case analyze_question svc t (question state) (schema_info state) of
        Inr analysis \<Rightarrow>
          if \<not> str_contains ''NEED_QUERY'' (str_upper analysis)
          then state\<lparr>answer := Some analysis, needs_query := Some False\<rparr>
          else state\<lparr>needs_query := Some True, retries := 0\<rparr>
      | Inl e \<Rightarrow>
          state\<lparr>error := Some (''Supervisor error: '' @ exn_text e), needs_query := Some False\<rparr>)"

definition coding_node :: "'r services \<Rightarrow> nat \<Rightarrow> 'r GraphState \<Rightarrow> 'r GraphState" where
  "coding_node svc t state =
     (let feedback = query_feedback state in
      case generate_query svc t (question state) (schema_info state) feedback
             (if truthy_str feedback then query state else None) of
        Inr q \<Rightarrow> state\<lparr>query := Some q\<rparr>
      | Inl e \<Rightarrow>
          state\<lparr>error := Some (''Query generation error: '' @ exn_text e),
                retries := retries state + 1\<rparr>)"

definition execute_node :: "'r services \<Rightarrow> nat \<Rightarrow> 'r GraphState \<Rightarrow> 'r GraphState" where
  "execute_node svc t state =
     (if truthy_str (error state) then state
      else
        (case query state of
           None \<Rightarrow> state\<lparr>error := Some ''No query to execute''\<rparr>
         | Some q \<Rightarrow>
             if q = [] then state\<lparr>error := Some ''No query to execute''\<rparr>
             else
               (case db_query svc t q of
                  Inr rows \<Rightarrow> state\<lparr>results := Some rows\<rparr>
                | Inl e \<Rightarrow> state\<lparr>error := Some (''Query execution error: '' @ exn_text e)\<rparr>)))"

definition synthesize_node :: "'r services \<Rightarrow> nat \<Rightarrow> 'r GraphState \<Rightarrow> 'r GraphState" where
  "synthesize_node svc t state =
     (if truthy_str (error state)
      then state\<lparr>answer := Some (''I encountered an error: '' @ or_default (error state) [])\<rparr>
      else
        (case synthesize_answer_of svc t (question state) (query state) (results state)
                (schema_info state) of
           Inr a \<Rightarrow> state\<lparr>answer := Some a\<rparr>
         | Inl e \<Rightarrow>
             state\<lparr>error := Some (''Synthesis error: '' @ exn_text e),
                   answer := Some (''I encountered an error while synthesizing the answer: ''
                                   @ exn_text e)\<rparr>))"

definition should_query :: "'r GraphState \<Rightarrow> bool" where
  "should_query state = truthy_bool (needs_query state)"

definition verify_node :: "'r services \<Rightarrow> nat \<Rightarrow> 'r GraphState \<Rightarrow> 'r GraphState" where
  "verify_node svc t state =
     (if truthy_str (error state)
      then state\<lparr>query_is_valid := Some False, query_feedback := error state, error := None\<rparr>
      else
        (case validate_schema svc t (query state) of
           Inr v \<Rightarrow>
             (let valid = or_default (v_valid v) True;
                  state' = state\<lparr>query_is_valid := Some valid,
                                 query_feedback := Some (or_default (v_error v) [])\<rparr>
              in if \<not> valid then state'\<lparr>retries := retries state + 1\<rparr> else state')
         | Inl e \<Rightarrow>
             state\<lparr>query_is_valid := Some True,
                   query_feedback := Some (''Verification system error: '' @ exn_text e)\<rparr>))"

datatype node =
    Supervisor | Expansion | SubQuestion | Coding | Verify | Execute
  | CollectResult | Aggregation | Synthesize

definition check_verification :: "'r GraphState \<Rightarrow> node" where
  "check_verification state =
     (if truthy_bool (query_is_valid state) then Execute
      else if retries state \<ge> max_retries then Execute
      else Coding)"

definition expansion_node :: "'r services \<Rightarrow> nat \<Rightarrow> 'r GraphState \<Rightarrow> 'r GraphState" where
  "expansion_node svc t state =
     (case detect_complexity_of svc t (question state) (schema_info state) of
        Inr result \<Rightarrow>
          (let complex = or_default (c_is_complex result) False;
               state' = state\<lparr>is_complex := Some complex,
                              original_question :=
                                Some (or_default (c_original_question result) (question state))\<rparr>
           in if complex
              then state'\<lparr>sub_questions := Some (or_default (c_sub_questions result) []),
                          current_sub_question_index := 0,
                          sub_results := Some []\<rparr>
              else state')
      | Inl e \<Rightarrow> state\<lparr>is_complex := Some False\<rparr>)"

definition sub_question_node :: "'r GraphState \<Rightarrow> exn + 'r GraphState" where
  "sub_question_node state =
     (let idx = current_sub_question_index state in
      case py_len (sub_questions state) of
        Inl e \<Rightarrow> Inl e
      | Inr n \<Rightarrow>
          if idx < n
          then Inr (state\<lparr>question := or_default (sub_questions state) [] ! idx,
                          query := None, results := None, query_is_valid := None,
                          query_feedback := None, error := None, retries := 0\<rparr>)
          else Inr state)"

definition collect_result_node :: "'r GraphState \<Rightarrow> exn + 'r GraphState" where
  "collect_result_node state =
     (let idx = current_sub_question_index state in
      case py_len (sub_questions state) of
        Inl e \<Rightarrow> Inl e
      | Inr n \<Rightarrow>
          if idx < n
          then
            (let sub_result = \<lparr> sr_sub_question = or_default (sub_questions state) [] ! idx,
                                sr_query = query state,
                                sr_results = results state \<rparr>
             in Inr (state\<lparr>sub_results := Some (or_default (sub_results state) [] @ [sub_result]),
                            current_sub_question_index := idx + 1\<rparr>))
          else Inr state)"

definition aggregation_node :: "'r services \<Rightarrow> nat \<Rightarrow> 'r GraphState \<Rightarrow> 'r GraphState" where
  "aggregation_node svc t state =
     (if \<not> truthy_list (sub_results state)
      then state\<lparr>answer := Some ''No results to aggregate.''\<rparr>
      else
        (case aggregate_results svc t (original_question state)
                (or_default (sub_results state) []) (schema_info state) of
           Inr a \<Rightarrow> state\<lparr>answer := Some a\<rparr>
         | Inl e \<Rightarrow>
             state\<lparr>error := Some (''Aggregation error: '' @ exn_text e),
                   answer := Some (''I encountered an error while aggregating results: ''
                                   @ exn_text e)\<rparr>))"

definition check_complexity :: "'r GraphState \<Rightarrow> node" where
  "check_complexity state =
     (if truthy_bool (is_complex state) \<and> truthy_list (sub_questions state)
      then SubQuestion else Coding)"

definition has_more_sub_questions :: "'r GraphState \<Rightarrow> exn + node" where
  "has_more_sub_questions state =
     (case py_len (sub_questions state) of
        Inl e \<Rightarrow> Inl e
      | Inr n \<Rightarrow> Inr (if current_sub_question_index state < n then SubQuestion else Aggregation))"

fun run_node :: "'r services \<Rightarrow> nat \<Rightarrow> node \<Rightarrow> 'r GraphState \<Rightarrow> exn + 'r GraphState" where
  "run_node svc t Supervisor state = Inr (supervisor_node svc t state)"
| "run_node svc t Expansion state = Inr (expansion_node svc t state)"
| "run_node svc t SubQuestion state = sub_question_node state"
| "run_node svc t Coding state = Inr (coding_node svc t state)"
| "run_node svc t Verify state = Inr (verify_node svc t state)"
| "run_node svc t Execute state = Inr (execute_node svc t state)"
| "run_node svc t CollectResult state = collect_result_node state"
| "run_node svc t Aggregation state = Inr (aggregation_node svc t state)"
| "run_node svc t Synthesize state = Inr (synthesize_node svc t state)"

fun next_node :: "node \<Rightarrow> 'r GraphState \<Rightarrow> exn + node option" where
  "next_node Supervisor state = Inr (if should_query state then Some Expansion else None)"
| "next_node Expansion state = Inr (Some (check_complexity state))"
| "next_node SubQuestion state = Inr (Some Coding)"
| "next_node Coding state = Inr (Some Verify)"
| "next_node Verify state = Inr (Some (check_verification state))"
| "next_node Execute state =
     Inr (Some (if truthy_bool (is_complex state) then CollectResult else Synthesize))"
| "next_node CollectResult state = map_sum id Some (has_more_sub_questions state)"
| "next_node Aggregation state = Inr None"
| "next_node Synthesize state = Inr None"

definition step ::
  "'r services \<Rightarrow> nat \<Rightarrow> node \<Rightarrow> 'r GraphState \<Rightarrow> exn + ('r GraphState \<times> node option)" where
  "step svc t n state =
     (case run_node svc t n state of
        Inl e \<Rightarrow> Inl e
      | Inr state' \<Rightarrow>
          (case next_node n state' of
             Inl e \<Rightarrow> Inl e
           | Inr nxt \<Rightarrow> Inr (state', nxt)))"

subsection \<open>Every run ends\<close>

text \<open>
  The graph has two cycles: coding and verification, and the loop over the sub-questions.
  Each step lowers \<open>progress\<close> in the lexicographic order: the stage (supervisor, expansion,
  the rest), then the number of sub-questions still queued, then a rank inside the current
  sub-run that falls with every retry. So \<open>invoke_from\<close> is a total function: it returns
  the list of the nodes run, each with the state it produced, and the final state, or the
  exception that escaped a node.
\<close>

definition stage :: "node \<Rightarrow> nat" where
  "stage n = (case n of Supervisor \<Rightarrow> 2 | Expansion \<Rightarrow> 1 | _ \<Rightarrow> 0)"

definition remaining :: "'r GraphState \<Rightarrow> nat" where
  "remaining state =
     (case sub_questions state of
        None \<Rightarrow> 0
      | Some qs \<Rightarrow> length qs - current_sub_question_index state)"

fun rank :: "node \<Rightarrow> 'r GraphState \<Rightarrow> nat" where
  "rank SubQuestion state = 30"
| "rank Coding state =
     10 + 4 * (max_retries - retries state) + (if truthy_str (error state) then 4 else 2)"
| "rank Verify state =
     10 + (if retries state \<ge> max_retries then 0
           else 4 * (max_retries - retries state) + (if truthy_str (error state) then 3 else 1))"
| "rank Execute state = 5"
| "rank CollectResult state = 4"
| "rank n state = 0"

definition progress :: "(node \<times> 'r GraphState) \<Rightarrow> nat \<times> nat \<times> nat" where
  "progress p = (case p of (n, state) \<Rightarrow> (stage n, remaining state, rank n state))"

lemma step_progress:
  assumes "step svc t n state = Inr (state', Some n')"
  shows "(progress (n', state'), progress (n, state)) \<in> less_than <*lex*> less_than <*lex*> less_than"
proof (cases n)
  case Supervisor
  with assms show ?thesis
    by (auto simp: step_def progress_def stage_def split: if_splits)
next
  case Expansion
  with assms show ?thesis
    by (auto simp: step_def progress_def stage_def check_complexity_def split: if_splits)
next
  case SubQuestion
  with assms show ?thesis
    by (auto simp: step_def progress_def stage_def remaining_def sub_question_node_def
        py_len_def max_retries_def Let_def truthy_str_def split: if_splits option.splits sum.splits)
next
  case Coding
  with assms show ?thesis
    by (auto simp: step_def progress_def stage_def remaining_def coding_node_def
        max_retries_def Let_def truthy_str_def split: if_splits option.splits sum.splits)
next
  case Verify
  with assms show ?thesis
    by (auto simp: step_def progress_def stage_def remaining_def verify_node_def
        check_verification_def truthy_bool_def
        max_retries_def Let_def truthy_str_def split: if_splits option.splits sum.splits)
next
  case Execute
  with assms show ?thesis
    by (auto simp: step_def progress_def stage_def remaining_def execute_node_def
        split: if_splits option.splits sum.splits)
next
  case CollectResult
  with assms show ?thesis
    by (auto simp: step_def progress_def stage_def remaining_def collect_result_node_def
        has_more_sub_questions_def py_len_def Let_def split: if_splits option.splits sum.splits)
next
  case Aggregation
  with assms show ?thesis by (simp add: step_def split: sum.splits)
next
  case Synthesize
  with assms show ?thesis by (simp add: step_def split: sum.splits)
qed

function invoke_from ::
  "'r services \<Rightarrow> nat \<Rightarrow> node \<Rightarrow> 'r GraphState \<Rightarrow>
     (node \<times> 'r GraphState) list \<times> (exn + 'r GraphState)" where
  "invoke_from svc t n state =
     (case step svc t n state of
        Inl e \<Rightarrow> ([], Inl e)
      | Inr (state', None) \<Rightarrow> ([(n, state')], Inr state')
      | Inr (state', Some n') \<Rightarrow>
          (case invoke_from svc (Suc t) n' state' of (tr, r) \<Rightarrow> ((n, state') # tr, r)))"
  by pat_completeness auto
termination
proof (relation "inv_image (less_than <*lex*> less_than <*lex*> less_than)
                   (\<lambda>(svc, t, n, state). progress (n, state))")
  show "wf (inv_image (less_than <*lex*> less_than <*lex*> less_than)
              (\<lambda>(svc :: 'r services, t :: nat, n, state). progress (n, state)))"
    by (intro wf_inv_image wf_lex_prod wf_less_than)
next
  fix svc :: "'r services" and t n state x2 x1 x2a x2b
  assume "step svc t n state = Inr x2" "(x1, x2a) = x2" "x2a = Some x2b"
  then have "step svc t n state = Inr (x1, Some x2b)" by auto
  then show "((svc, Suc t, x2b, x1), (svc, t, n, state))
          \<in> inv_image (less_than <*lex*> less_than <*lex*> less_than)
               (\<lambda>(svc, t, n, state). progress (n, state))"
    using step_progress by fastforce
qed

declare invoke_from.simps [simp del]

subsection \<open>Running a question\<close>

definition initial_state :: "string \<Rightarrow> string \<Rightarrow> 'r GraphState" where
  "initial_state q schema_summary =
     \<lparr> messages = [HumanMessage q],
       question = q,
       original_question = Some q,
       schema_info = schema_summary,
       query = None,
       results = None,
       answer = None,
       error = None,
       needs_query = None,
       query_is_valid = None,
       query_feedback = None,
       retries = 0,
       is_complex = None,
       sub_questions = None,
       current_sub_question_index = 0,
       sub_results = None \<rparr>"

definition run ::
  "'r services \<Rightarrow> SchemaManager \<Rightarrow> string \<Rightarrow>
     (node \<times> 'r GraphState) list \<times> (exn + 'r GraphState)" where
  "run svc schema_manager q =
     (case invoke_from svc 0 Supervisor (initial_state q (describe schema_manager)) of
        (tr, Inl e) \<Rightarrow> (tr, Inl e)
      | (tr, Inr final_state) \<Rightarrow>
          (tr, Inr (case answer final_state of
                      None \<Rightarrow> final_state
                    | Some a \<Rightarrow>
                        if a = [] then final_state
                        else final_state\<lparr>messages := messages final_state @ [AIMessage a]\<rparr>)))"

text \<open>
  One round of the correction loop is a coding step followed by a verification step.
  \<open>same_task\<close> lists the fields no round touches, and \<open>validated\<close> says that some call of
  the validator did not answer \<^verbatim>\<open>valid = False\<close>.
\<close>

definition coding_round :: "'r services \<Rightarrow> nat \<Rightarrow> 'r GraphState \<Rightarrow> 'r GraphState" where
  "coding_round svc t state = verify_node svc (Suc t) (coding_node svc t state)"

definition same_task :: "'r GraphState \<Rightarrow> 'r GraphState \<Rightarrow> bool" where
  "same_task s s' \<longleftrightarrow>
     messages s' = messages s \<and> question s' = question s \<and>
     original_question s' = original_question s \<and> schema_info s' = schema_info s \<and>
     answer s' = answer s \<and> needs_query s' = needs_query s \<and>
     is_complex s' = is_complex s \<and> sub_questions s' = sub_questions s \<and>
     current_sub_question_index s' = current_sub_question_index s \<and>
     sub_results s' = sub_results s"

definition validated :: "'r services \<Rightarrow> bool" where
  "validated svc \<longleftrightarrow>
     (\<exists>t q. (\<exists>e. validate_schema svc t q = Inl e) \<or>
            (\<exists>v. validate_schema svc t q = Inr v \<and> v_valid v \<noteq> Some False))"

lemma same_task_refl: "same_task s s"
  by (simp add: same_task_def)

lemma same_task_trans: "same_task s s' \<Longrightarrow> same_task s' s'' \<Longrightarrow> same_task s s''"
  by (simp add: same_task_def)

lemma round_frame: "same_task s (coding_round svc t s)"
  by (simp add: coding_round_def coding_node_def verify_node_def same_task_def Let_def
      split: sum.splits)

lemma round_error:
  "\<not> truthy_str (error s) \<Longrightarrow> \<not> truthy_str (error (coding_round svc t s))"
  by (auto simp: coding_round_def coding_node_def verify_node_def Let_def truthy_str_def
      split: sum.splits option.splits)

lemma round_retries:
  "\<not> truthy_str (error s) \<Longrightarrow>
   retries (coding_round svc t s) =
     (if truthy_bool (query_is_valid (coding_round svc t s)) then retries s else retries s + 1)"
  by (auto simp: coding_round_def coding_node_def verify_node_def Let_def truthy_str_def
      truthy_bool_def or_default_def split: sum.splits option.splits)

lemma verify_valid:
  "truthy_bool (query_is_valid (verify_node svc t s)) \<Longrightarrow>
   (\<exists>e. validate_schema svc t (query s) = Inl e) \<or>
   (\<exists>v. validate_schema svc t (query s) = Inr v \<and> v_valid v \<noteq> Some False)"
  by (auto simp: verify_node_def Let_def truthy_bool_def or_default_def
      split: sum.splits option.splits if_splits)

lemma round_valid:
  "truthy_bool (query_is_valid (coding_round svc t s)) \<Longrightarrow> validated svc"
  unfolding validated_def coding_round_def by (blast dest: verify_valid)

lemma invoke_coding:
  "invoke_from svc t Coding s =
     (case invoke_from svc (Suc (Suc t)) (check_verification (coding_round svc t s))
             (coding_round svc t s) of
        (tr, r) \<Rightarrow> ((Coding, coding_node svc t s) # (Verify, coding_round svc t s) # tr, r))"
  by (subst invoke_from.simps, simp add: step_def,
      subst invoke_from.simps, simp add: step_def coding_round_def split: prod.splits)

lemma coding_loop:
  assumes "\<not> truthy_str (error s)" "retries s < max_retries"
  shows "\<exists>k loop s'.
           1 \<le> k \<and> k \<le> max_retries - retries s \<and>
           map fst loop = concat (replicate k [Coding, Verify]) \<and>
           invoke_from svc t Coding s =
             (case invoke_from svc (t + 2 * k) Execute s' of (tr, r) \<Rightarrow> (loop @ tr, r)) \<and>
           same_task s s' \<and> \<not> truthy_str (error s') \<and>
           (if truthy_bool (query_is_valid s') then validated svc \<and> retries s' < retries s + k
            else retries s' = max_retries \<and> k = max_retries - retries s)"
  using assms
proof (induction "max_retries - retries s" arbitrary: s t)
  case 0
  then show ?case by simp
next
  case (Suc m)
  let ?s2 = "coding_round svc t s"
  have frame: "same_task s ?s2" by (rule round_frame)
  have err: "\<not> truthy_str (error ?s2)" using Suc.prems(1) by (rule round_error)
  have ret: "retries ?s2 =
     (if truthy_bool (query_is_valid ?s2) then retries s else retries s + 1)"
    using Suc.prems(1) by (rule round_retries)
  show ?case
  proof (cases "check_verification ?s2")
    case Execute
    have inv: "invoke_from svc t Coding s =
       (case invoke_from svc (t + 2 * 1) Execute ?s2 of
          (tr, r) \<Rightarrow> ([(Coding, coding_node svc t s), (Verify, ?s2)] @ tr, r))"
      by (subst invoke_coding) (simp add: Execute)
    have fin: "if truthy_bool (query_is_valid ?s2) then validated svc \<and> retries ?s2 < retries s + 1
        else retries ?s2 = max_retries \<and> 1 = max_retries - retries s"
      using Execute ret Suc.prems(2) round_valid [of svc t s]
      by (auto simp: check_verification_def split: if_splits)
    show ?thesis
      apply (rule exI [of _ 1])
      apply (rule exI [of _ "[(Coding, coding_node svc t s), (Verify, ?s2)]"])
      apply (rule exI [of _ ?s2])
      using inv frame err fin Suc.prems(2) by (auto split: if_splits)
  next
    case Coding
    then have nv: "\<not> truthy_bool (query_is_valid ?s2)" and lt: "retries ?s2 < max_retries"
      by (auto simp: check_verification_def split: if_splits)
    from nv ret have r2: "retries ?s2 = retries s + 1" by simp
    with Suc.hyps(2) have m: "m = max_retries - retries ?s2" by simp
    from Suc.hyps(1) [OF m err lt, of "Suc (Suc t)"]
    obtain k loop s' where k: "1 \<le> k" "k \<le> max_retries - retries ?s2"
      "map fst loop = concat (replicate k [Coding, Verify])"
      "invoke_from svc (Suc (Suc t)) Coding ?s2 =
         (case invoke_from svc (Suc (Suc t) + 2 * k) Execute s' of (tr, r) \<Rightarrow> (loop @ tr, r))"
      "same_task ?s2 s'" "\<not> truthy_str (error s')"
      "if truthy_bool (query_is_valid s') then validated svc \<and> retries s' < retries ?s2 + k
       else retries s' = max_retries \<and> k = max_retries - retries ?s2"
      by blast
    have inv: "invoke_from svc t Coding s =
       (case invoke_from svc (t + 2 * Suc k) Execute s' of
          (tr, r) \<Rightarrow> (((Coding, coding_node svc t s) # (Verify, ?s2) # loop) @ tr, r))"
      by (subst invoke_coding) (simp add: Coding k(4) split: prod.splits)
    show ?thesis
      apply (rule exI [of _ "Suc k"])
      apply (rule exI [of _ "(Coding, coding_node svc t s) # (Verify, ?s2) # loop"])
      apply (rule exI [of _ s'])
      using inv k r2 lt same_task_trans [OF frame k(5)]
      by (auto split: if_splits)
  qed (auto simp: check_verification_def split: if_splits)
qed

subsection \<open>The path of a run\<close>


lemma invoke_supervisor_end:
  "\<not> should_query (supervisor_node svc t s) \<Longrightarrow>
   invoke_from svc t Supervisor s =
     ([(Supervisor, supervisor_node svc t s)], Inr (supervisor_node svc t s))"
  by (subst invoke_from.simps) (simp add: step_def)

lemma invoke_supervisor_query:
  "should_query (supervisor_node svc t s) \<Longrightarrow>
   invoke_from svc t Supervisor s =
     (case invoke_from svc (Suc t) Expansion (supervisor_node svc t s) of
        (tr, r) \<Rightarrow> ((Supervisor, supervisor_node svc t s) # tr, r))"
  by (subst invoke_from.simps) (simp add: step_def)

lemma invoke_expansion:
  "invoke_from svc t Expansion s =
     (case invoke_from svc (Suc t) (check_complexity (expansion_node svc t s))
             (expansion_node svc t s) of
        (tr, r) \<Rightarrow> ((Expansion, expansion_node svc t s) # tr, r))"
  by (subst invoke_from.simps) (simp add: step_def)


lemma invoke_execute:
  "invoke_from svc t Execute s =
     (case invoke_from svc (Suc t) (if truthy_bool (is_complex s) then CollectResult else Synthesize)
             (execute_node svc t s) of
        (tr, r) \<Rightarrow> ((Execute, execute_node svc t s) # tr, r))"
proof -
  have "is_complex (execute_node svc t s) = is_complex s"
    by (simp add: execute_node_def split: option.splits sum.splits)
  then show ?thesis
    by (subst invoke_from.simps) (simp add: step_def)
qed



lemma invoke_synthesize:
  "invoke_from svc t Synthesize s =
     ([(Synthesize, synthesize_node svc t s)], Inr (synthesize_node svc t s))"
  by (subst invoke_from.simps) (simp add: step_def)


lemma loop_nodes:
  "map fst loop = concat (replicate k [Coding, Verify]) \<Longrightarrow> set (map fst loop) \<subseteq> {Coding, Verify}"
  by (induction k arbitrary: loop) auto

text \<open>
  Claim C3. When the analysis reply of the supervisor agent, in upper case, does not
  contain \<^verbatim>\<open>NEED_QUERY\<close>, the run consists of the supervisor step alone: the reply is the
  answer of the final state, unchanged, and no coding, verification or execution step is
  run. (\<^verbatim>\<open>run\<close> then appends the reply to the messages unless it is the empty string.)
\<close>
theorem no_query_short_circuit:
  assumes "analyze_question svc 0 q (describe sm) = Inr reply"
    and "\<not> str_contains ''NEED_QUERY'' (str_upper reply)"
  shows "run svc sm q =
     ([(Supervisor,
        (initial_state q (describe sm))\<lparr>answer := Some reply, needs_query := Some False\<rparr>)],
      Inr ((initial_state q (describe sm))
             \<lparr>answer := Some reply, needs_query := Some False,
              messages := (if reply = [] then [HumanMessage q]
                           else [HumanMessage q, AIMessage reply])\<rparr>))"
proof -
  let ?s0 = "initial_state q (describe sm) :: 'a GraphState"
  have s1: "supervisor_node svc 0 ?s0 = ?s0\<lparr>answer := Some reply, needs_query := Some False\<rparr>"
    using assms by (simp add: supervisor_node_def initial_state_def)
  have "\<not> should_query (supervisor_node svc 0 ?s0)"
    by (simp add: s1 should_query_def truthy_bool_def)
  then have "invoke_from svc 0 Supervisor ?s0 =
      ([(Supervisor, supervisor_node svc 0 ?s0)], Inr (supervisor_node svc 0 ?s0))"
    by (rule invoke_supervisor_end)
  then show ?thesis
    by (simp add: run_def s1) (simp add: initial_state_def)
qed

lemma length_rounds: "length (concat (replicate k [a, b])) = 2 * k"
  by (induction k) simp_all

text \<open>
  The correction loop, written out: \<open>rounds svc t s k\<close> is the trace of \<open>k\<close> rounds of coding
  and verification that start at step \<open>t\<close> in state \<open>s\<close>, and \<open>after_rounds svc t s k\<close> is the
  state the last of them leaves.
\<close>

fun rounds :: "'r services \<Rightarrow> nat \<Rightarrow> 'r GraphState \<Rightarrow> nat \<Rightarrow> (node \<times> 'r GraphState) list" where
  "rounds svc t s 0 = []"
| "rounds svc t s (Suc k) =
     (Coding, coding_node svc t s) # (Verify, coding_round svc t s) #
     rounds svc (Suc (Suc t)) (coding_round svc t s) k"

fun after_rounds :: "'r services \<Rightarrow> nat \<Rightarrow> 'r GraphState \<Rightarrow> nat \<Rightarrow> 'r GraphState" where
  "after_rounds svc t s 0 = s"
| "after_rounds svc t s (Suc k) = after_rounds svc (Suc (Suc t)) (coding_round svc t s) k"


lemma rounds_length: "length (rounds svc t s k) = 2 * k"
  by (induction k arbitrary: t s) simp_all

lemma rounds_last:
  "0 < k \<Longrightarrow> last (rounds svc t s k) = (Verify, after_rounds svc t s k)"
proof (induction k arbitrary: t s)
  case 0
  then show ?case by simp
next
  case (Suc k)
  then show ?case by (cases k) simp_all
qed








definition never_valid :: "'r services \<Rightarrow> bool" where
  "never_valid svc \<longleftrightarrow> (\<forall>t q. \<exists>v. validate_schema svc t q = Inr v \<and> v_valid v = Some False)"

lemma never_valid_not_validated: "never_valid svc \<Longrightarrow> \<not> validated svc"
  unfolding never_valid_def validated_def
  by (metis sum.inject Inl_Inr_False)

lemma supervisor_need:
  assumes "analyze_question svc 0 q schema = Inr reply"
    and "str_contains ''NEED_QUERY'' (str_upper reply)"
  shows "supervisor_node svc 0 (initial_state q schema) =
           (initial_state q schema)\<lparr>needs_query := Some True, retries := 0\<rparr>"
  using assms by (simp add: supervisor_node_def initial_state_def)

lemma simple_run:
  fixes svc :: "'r services"
  assumes need: "analyze_question svc 0 q schema = Inr reply"
      "str_contains ''NEED_QUERY'' (str_upper reply)"
    and det: "detect_complexity_of svc 1 q schema = Inr c" "c_is_complex c \<noteq> Some True"
  shows "\<exists>k loop s'.
     1 \<le> k \<and> k \<le> max_retries \<and>
     map fst loop = concat (replicate k [Coding, Verify]) \<and>
     invoke_from svc 0 Supervisor (initial_state q schema) =
       ([(Supervisor, supervisor_node svc 0 (initial_state q schema)),
         (Expansion, expansion_node svc 1 (supervisor_node svc 0 (initial_state q schema)))]
        @ loop @
        [(Execute, execute_node svc (2 + 2 * k) s'),
         (Synthesize, synthesize_node svc (3 + 2 * k) (execute_node svc (2 + 2 * k) s'))],
        Inr (synthesize_node svc (3 + 2 * k) (execute_node svc (2 + 2 * k) s'))) \<and>
     (if truthy_bool (query_is_valid s') then validated svc \<and> retries s' < k
      else retries s' = max_retries \<and> k = max_retries)"
proof -
  define s0 :: "'r GraphState" where "s0 = initial_state q schema"
  define s1 where "s1 = supervisor_node svc 0 s0"
  define s2 where "s2 = expansion_node svc 1 s1"
  have s1: "s1 = s0\<lparr>needs_query := Some True, retries := 0\<rparr>"
    unfolding s1_def s0_def using need by (rule supervisor_need)
  have q1: "should_query s1"
    by (simp add: s1 should_query_def truthy_bool_def)
  have s2: "s2 = s1\<lparr>is_complex := Some False,
                     original_question := Some (or_default (c_original_question c) q)\<rparr>"
  proof -
    have "question s1 = q" "schema_info s1 = schema"
      by (simp_all add: s1 s0_def initial_state_def)
    moreover have "\<not> or_default (c_is_complex c) False"
      using det(2) by (cases "c_is_complex c") (simp_all add: or_default_def)
    ultimately show ?thesis
      unfolding s2_def using det(1) by (simp add: expansion_node_def Let_def)
  qed
  have cc: "check_complexity s2 = Coding"
    by (simp add: s2 check_complexity_def truthy_bool_def)
  have "\<not> truthy_str (error s2)" "retries s2 < max_retries"
    by (simp_all add: s2 s1 s0_def initial_state_def truthy_str_def max_retries_def)
  from coding_loop [OF this, of svc 2]
  obtain k loop s' where k: "1 \<le> k" "k \<le> max_retries - retries s2"
    "map fst loop = concat (replicate k [Coding, Verify])"
    "invoke_from svc 2 Coding s2 =
       (case invoke_from svc (2 + 2 * k) Execute s' of (tr, r) \<Rightarrow> (loop @ tr, r))"
    "same_task s2 s'"
    "if truthy_bool (query_is_valid s') then validated svc \<and> retries s' < retries s2 + k
     else retries s' = max_retries \<and> k = max_retries - retries s2"
    by blast
  have r2: "retries s2 = 0"
    by (simp add: s2 s1)
  have nc: "\<not> truthy_bool (is_complex s')"
    using k(5) by (simp add: same_task_def s2 truthy_bool_def)
  define te where "te = 2 + 2 * k"
  have te3: "3 + 2 * k = Suc te" by (simp add: te_def)
  note k4 = k(4) [folded te_def]
  have e1: "invoke_from svc 0 Supervisor s0 =
      (case invoke_from svc (Suc 0) Expansion s1 of (tr, r) \<Rightarrow> ((Supervisor, s1) # tr, r))"
    using invoke_supervisor_query [of svc 0 s0] q1 by (simp add: s1_def)
  have e2: "invoke_from svc (Suc 0) Expansion s1 =
      (case invoke_from svc 2 Coding s2 of (tr, r) \<Rightarrow> ((Expansion, s2) # tr, r))"
    using invoke_expansion [of svc "Suc 0" s1] cc by (simp add: s2_def numeral_2_eq_2)
  have A: "invoke_from svc 0 Supervisor s0 =
       ([(Supervisor, s1), (Expansion, s2)] @ loop @
        [(Execute, execute_node svc te s'),
         (Synthesize, synthesize_node svc (Suc te) (execute_node svc te s'))],
        Inr (synthesize_node svc (Suc te) (execute_node svc te s')))"
    by (simp add: e1 e2 k4 invoke_execute [of svc te s'] nc invoke_synthesize
        split: prod.splits)
  have fin: "if truthy_bool (query_is_valid s') then validated svc \<and> retries s' < k
     else retries s' = max_retries \<and> k = max_retries"
    using k(6) r2 by (simp split: if_splits)
  have kk: "k \<le> max_retries" using k(2) r2 by simp
  note A' = A [unfolded te_def s2_def s1_def s0_def]
  show ?thesis
    apply (intro exI [of _ k] exI [of _ loop] exI [of _ s'])
    using A' k(1,3) kk fin by (simp add: eval_nat_numeral)
qed

lemma run_of_invoke:
  assumes "invoke_from svc 0 Supervisor (initial_state q (describe sm)) = (tr, Inr f)"
  shows "\<exists>final. run svc sm q = (tr, Inr final) \<and> answer final = answer f \<and>
           retries final = retries f \<and> error final = error f \<and>
           sub_results final = sub_results f"
  using assms by (auto simp: run_def split: option.splits)

lemma execute_retries: "retries (execute_node svc t s) = retries s"
  by (simp add: execute_node_def split: option.splits sum.splits)

lemma synthesize_retries: "retries (synthesize_node svc t s) = retries s"
  by (simp add: synthesize_node_def split: sum.splits)

lemma synthesize_answers: "answer (synthesize_node svc t s) \<noteq> None"
  by (simp add: synthesize_node_def split: sum.splits)

text \<open>
  Claim C1. When the validator rejects every query, a question that is not decomposed runs
  the coding step exactly three times, the first generation and two corrective ones, and
  then goes on to execution with the retry counter at 3. \<^verbatim>\<open>_verify_node\<close> increments the
  counter before \<^verbatim>\<open>_check_verification\<close> compares it with \<^verbatim>\<open>>=\<close> to \<open>max_retries\<close>, so the
  third rejection already forces execution: the fourth attempt that the messages
  \<^verbatim>\<open>Attempt k/4\<close> of the two nodes announce is never made.
\<close>
theorem retry_ceiling_always_invalid:
  fixes svc :: "'r services"
  assumes "analyze_question svc 0 q (describe sm) = Inr reply"
    and "str_contains ''NEED_QUERY'' (str_upper reply)"
    and "detect_complexity_of svc 1 q (describe sm) = Inr c"
    and "c_is_complex c \<noteq> Some True"
    and "never_valid svc"
  shows "\<exists>tr final.
           run svc sm q = (tr, Inr final) \<and>
           map fst tr = [Supervisor, Expansion, Coding, Verify, Coding, Verify, Coding, Verify,
                         Execute, Synthesize] \<and>
           length (filter (\<lambda>n. n = Coding) (map fst tr)) = 3 \<and>
           retries final = 3"
proof -
  from simple_run [OF assms(1-4)]
  obtain k loop s' where k:
    "map fst loop = concat (replicate k [Coding, Verify])"
    "invoke_from svc 0 Supervisor (initial_state q (describe sm)) =
       ([(Supervisor, supervisor_node svc 0 (initial_state q (describe sm))),
         (Expansion, expansion_node svc 1 (supervisor_node svc 0 (initial_state q (describe sm))))]
        @ loop @
        [(Execute, execute_node svc (2 + 2 * k) s'),
         (Synthesize, synthesize_node svc (3 + 2 * k) (execute_node svc (2 + 2 * k) s'))],
        Inr (synthesize_node svc (3 + 2 * k) (execute_node svc (2 + 2 * k) s')))"
    "if truthy_bool (query_is_valid s') then validated svc \<and> retries s' < k
     else retries s' = max_retries \<and> k = max_retries"
    by blast
  from k(3) never_valid_not_validated [OF assms(5)]
  have r: "retries s' = 3" and k3: "k = 3"
    by (auto simp: max_retries_def split: if_splits)
  from run_of_invoke [OF k(2)] obtain final where final:
    "run svc sm q =
       ([(Supervisor, supervisor_node svc 0 (initial_state q (describe sm))),
         (Expansion, expansion_node svc 1 (supervisor_node svc 0 (initial_state q (describe sm))))]
        @ loop @
        [(Execute, execute_node svc (2 + 2 * k) s'),
         (Synthesize, synthesize_node svc (3 + 2 * k) (execute_node svc (2 + 2 * k) s'))],
        Inr final)"
    "retries final = retries (synthesize_node svc (3 + 2 * k) (execute_node svc (2 + 2 * k) s'))"
    by blast
  have l: "map fst loop = [Coding, Verify, Coding, Verify, Coding, Verify]"
    using k(1) by (simp add: k3 eval_nat_numeral)
  show ?thesis
    apply (intro exI conjI)
       apply (rule final(1))
    using l final(2) r by (simp_all add: synthesize_retries execute_retries)
qed


subsection \<open>Sample runs\<close>

text \<open>
  Scripted services: the supervisor's analysis is \<open>reply\<close>, complexity detection answers
  \<open>c\<close>, every generated query is \<^verbatim>\<open>SELECT 1\<close>, and the validator answers \<open>valid\<close>.
\<close>

definition stub_services :: "string \<Rightarrow> complexity \<Rightarrow> bool \<Rightarrow> nat services" where
  "stub_services reply c valid =
     \<lparr> analyze_question = (\<lambda>t q s. Inr reply),
       detect_complexity_of = (\<lambda>t q s. Inr c),
       generate_query = (\<lambda>t q s feedback previous. Inr ''SELECT 1''),
       validate_schema = (\<lambda>t q. Inr \<lparr> v_valid = Some valid, v_error = Some ''Binder Error'' \<rparr>),
       db_query = (\<lambda>t q. Inr [1]),
       synthesize_answer_of = (\<lambda>t q sql rows s. Inr ''One row.''),
       aggregate_results = (\<lambda>t q rs s. Inr ''Both.'') \<rparr>"

definition simple_reply :: complexity where
  "simple_reply =
     \<lparr> c_is_complex = Some False, c_sub_questions = Some [],
       c_original_question = Some ''How many?'', c_reasoning = Some ''one metric'' \<rparr>"


lemma need_query_token: "str_contains ''NEED_QUERY'' (str_upper ''need_query'')"
  by code_simp

lemma greeting_token: "\<not> str_contains ''NEED_QUERY'' (str_upper ''Hello! Ask me about trips.'')"
  by code_simp

lemma stub_simps:
  "analyze_question (stub_services reply c v) t q s = Inr reply"
  "detect_complexity_of (stub_services reply c v) t q s = Inr c"
  "validate_schema (stub_services reply c v) t sql =
     Inr \<lparr> v_valid = Some v, v_error = Some ''Binder Error'' \<rparr>"
  "aggregate_results (stub_services reply c v) t oq rs s = Inr ''Both.''"
  by (simp_all add: stub_services_def)

theorem retry_ceiling_always_invalid_witness:
  "never_valid (stub_services ''need_query'' simple_reply False) \<and>
   (\<exists>tr final.
      run (stub_services ''need_query'' simple_reply False) SchemaManager_init ''How many?''
        = (tr, Inr final) \<and>
      map fst tr = [Supervisor, Expansion, Coding, Verify, Coding, Verify, Coding, Verify,
                    Execute, Synthesize] \<and>
      length (filter (\<lambda>n. n = Coding) (map fst tr)) = 3 \<and>
      retries final = 3)"
proof -
  have nv: "never_valid (stub_services ''need_query'' simple_reply False)"
    by (simp add: never_valid_def stub_simps)
  have sx: "c_is_complex simple_reply \<noteq> Some True"
    by (simp add: simple_reply_def)
  from retry_ceiling_always_invalid
         [of "stub_services ''need_query'' simple_reply False" "''How many?''"
             SchemaManager_init "''need_query''" simple_reply,
          OF stub_simps(1) need_query_token stub_simps(2) sx nv] nv
  show ?thesis by (rule conjI [rotated])
qed

theorem no_query_short_circuit_witness:
  "\<not> str_contains ''NEED_QUERY'' (str_upper ''Hello! Ask me about trips.'') \<and>
   map fst (fst (run (stub_services ''Hello! Ask me about trips.'' simple_reply True)
                     SchemaManager_init ''Hi'')) = [Supervisor] \<and>
   map_sum id answer (snd (run (stub_services ''Hello! Ask me about trips.'' simple_reply True)
                     SchemaManager_init ''Hi'')) = Inr (Some ''Hello! Ask me about trips.'')"
proof -
  note r = no_query_short_circuit
         [of "stub_services ''Hello! Ask me about trips.'' simple_reply True" "''Hi''"
             SchemaManager_init "''Hello! Ask me about trips.''",
          OF stub_simps(1) greeting_token]
  show ?thesis
    unfolding r by (simp add: greeting_token)
qed




end
